theory Spec2Isabelle
  imports Main "HOL-Library.Sublist" "HOL-Library.Char_ord" "HOL-Library.List_Lexorder"
    "HOL-Library.Multiset"
begin

section \<open>Python string primitives used by mudur\<close>

text \<open>
  Python 2 byte strings are modelled as \<^typ>\<open>string\<close>. Only the operations that the
  embedded functions call are defined, each with the behaviour of the Python 2 builtin.
\<close>

abbreviation nl :: char where
  "nl \<equiv> CHR 0x0A"

text \<open>\<^verbatim>\<open>s.split(c)\<close> for a one-character separator: never returns the empty list.\<close>

fun split_on :: "char \<Rightarrow> string \<Rightarrow> string list" where
  "split_on c [] = [[]]"
| "split_on c (x # xs) =
     (if x = c then [] # split_on c xs
      else (case split_on c xs of w # ws \<Rightarrow> (x # w) # ws | [] \<Rightarrow> [[x]]))"

text \<open>\<^verbatim>\<open>sep.join(ls)\<close>.\<close>

fun join :: "string \<Rightarrow> string list \<Rightarrow> string" where
  "join sep [] = []"
| "join sep [x] = x"
| "join sep (x # y # ys) = x @ sep @ join sep (y # ys)"

text \<open>\<^verbatim>\<open>s.startswith(p)\<close>.\<close>

definition startswith :: "string \<Rightarrow> string \<Rightarrow> bool" where
  "startswith p s = (take (length p) s = p)"

text \<open>The characters that \<^verbatim>\<open>str.split()\<close> and \<^verbatim>\<open>str.strip()\<close> treat as whitespace.\<close>

definition isspace :: "char \<Rightarrow> bool" where
  "isspace c = (c \<in> set [CHR 0x20, CHR 0x09, CHR 0x0A, CHR 0x0B, CHR 0x0C, CHR 0x0D])"

text \<open>\<^verbatim>\<open>s.split()\<close>: the maximal runs of non-whitespace characters.\<close>

fun split_ws_acc :: "string \<Rightarrow> string \<Rightarrow> string list" where
  "split_ws_acc cur [] = (if cur = [] then [] else [cur])"
| "split_ws_acc cur (c # cs) =
     (if isspace c
      then (if cur = [] then split_ws_acc [] cs else cur # split_ws_acc [] cs)
      else split_ws_acc (cur @ [c]) cs)"

definition split_ws :: "string \<Rightarrow> string list" where
  "split_ws s = split_ws_acc [] s"

section \<open>Exceptions and files\<close>

datatype exn = IOError | OSError | TypeError | IndexError | ValueError | KeyError

text \<open>
  A file system maps a path to the content that \<^verbatim>\<open>open(path).read()\<close> yields, or to
  \<open>None\<close> when opening the file raises \<^verbatim>\<open>IOError\<close> (missing, unreadable, a directory).
\<close>

type_synonym filesystem = "string \<Rightarrow> string option"

definition open_read :: "filesystem \<Rightarrow> string \<Rightarrow> exn + string" where
  "open_read fs path = (case fs path of None \<Rightarrow> Inl IOError | Some data \<Rightarrow> Inr data)"

text \<open>The filter of \<^verbatim>\<open>load_file\<close>: \<^verbatim>\<open>line and not line.startswith("#")\<close>.\<close>

definition keep_line :: "string \<Rightarrow> bool" where
  "keep_line line = (line \<noteq> [] \<and> \<not> startswith ''#'' line)"

text \<open>
  \<^verbatim>\<open>load_file(path)\<close> (mudur.py, lines 79-90): the \<^verbatim>\<open>try\<close> block reads and filters the
  file, \<^verbatim>\<open>except IOError\<close> returns the empty string, any other exception propagates.
\<close>

definition load_file :: "filesystem \<Rightarrow> string \<Rightarrow> exn + string" where
  "load_file fs path =
     (case open_read fs path of
        Inr data \<Rightarrow> Inr (join [nl] (filter keep_line (split_on nl data)))
      | Inl IOError \<Rightarrow> Inr []
      | Inl e \<Rightarrow> Inl e)"

text \<open>An example file system: an fstab with a comment and an empty line, nothing else.\<close>

definition fs_fstab :: filesystem where
  "fs_fstab =
     (\<lambda>p. if p = ''/etc/fstab''
          then Some ''# static\<newline>\<newline>/dev/sda1 / ext4 defaults 0 1\<newline>#x\<newline>proc /proc proc defaults 0 0\<newline>''
          else None)"

section \<open>Config Resolver (mudur.py, class Config)\<close>

text \<open>More string builtins: \<^verbatim>\<open>readlines\<close>, \<^verbatim>\<open>split(c, 1)\<close>, \<^verbatim>\<open>strip\<close>, \<^verbatim>\<open>in\<close>.\<close>

text \<open>\<^verbatim>\<open>file.readlines()\<close>: the lines of the content, each with its terminating newline.\<close>

fun readlines :: "string \<Rightarrow> string list" where
  "readlines [] = []"
| "readlines (x # xs) =
     (if x = nl then [x] # readlines xs
      else (case readlines xs of l # ls \<Rightarrow> (x # l) # ls | [] \<Rightarrow> [[x]]))"

text \<open>\<^verbatim>\<open>s.split(c, 1)\<close> for an \<open>s\<close> that contains \<open>c\<close>: the parts around the first \<open>c\<close>.\<close>

definition split_first :: "char \<Rightarrow> string \<Rightarrow> string \<times> string" where
  "split_first c s = (takeWhile (\<lambda>x. x \<noteq> c) s, tl (dropWhile (\<lambda>x. x \<noteq> c) s))"

text \<open>\<^verbatim>\<open>s.strip(chars)\<close> and \<^verbatim>\<open>s.strip()\<close>.\<close>

definition strip_chars :: "(char \<Rightarrow> bool) \<Rightarrow> string \<Rightarrow> string" where
  "strip_chars P s = rev (dropWhile P (rev (dropWhile P s)))"

definition strip :: "string \<Rightarrow> string" where
  "strip s = strip_chars isspace s"

text \<open>\<^verbatim>\<open>p in s\<close> on strings: \<open>p\<close> occurs in \<open>s\<close> as a substring.\<close>

fun is_substring :: "string \<Rightarrow> string \<Rightarrow> bool" where
  "is_substring p [] = (p = [])"
| "is_substring p (x # xs) = (startswith p (x # xs) \<or> is_substring p xs)"

text \<open>
  The values an option can hold: a string (from the defaults, the config file or a
  \<^verbatim>\<open>key:value\<close> fragment), a boolean, or \<^verbatim>\<open>None\<close>.
\<close>

datatype pyval = Str string | Bool bool | NoneV

text \<open>Python truthiness, as used by \<^verbatim>\<open>if not x\<close>.\<close>

fun truthy :: "pyval \<Rightarrow> bool" where
  "truthy (Str s) = (s \<noteq> [])"
| "truthy (Bool b) = b"
| "truthy NoneV = False"

type_synonym optionmap = "string \<rightharpoonup> pyval"

record language =
  keymap :: string
  font :: string
  trans_name :: string
  locale_name :: string

definition Language :: "string \<Rightarrow> string \<Rightarrow> string \<Rightarrow> string \<Rightarrow> language" where
  "Language k f t l = \<lparr>keymap = k, font = f, trans_name = t, locale_name = l\<rparr>"

text \<open>The static table \<^verbatim>\<open>LANGUAGES\<close> (mudur.py, lines 546-561).\<close>

definition LANGUAGES :: "string \<rightharpoonup> language" where
  "LANGUAGES =
     [''ca'' \<mapsto> Language ''es'' ''iso01.16'' ''8859-1'' ''ca_ES.UTF-8'',
      ''de'' \<mapsto> Language ''de'' ''iso01.16'' ''8859-1'' ''de_DE.UTF-8'',
      ''en'' \<mapsto> Language ''us'' ''iso01.16'' ''8859-1'' ''en_US.UTF-8'',
      ''es'' \<mapsto> Language ''es'' ''iso01.16'' ''8859-1'' ''es_ES.UTF-8'',
      ''fr'' \<mapsto> Language ''fr'' ''iso01.16'' ''8859-1'' ''fr_FR.UTF-8'',
      ''hu'' \<mapsto> Language ''hu'' ''lat2a-16'' ''8859-2'' ''hu_HU.UTF-8'',
      ''it'' \<mapsto> Language ''it'' ''iso01.16'' ''8859-1'' ''it_IT.UTF-8'',
      ''nl'' \<mapsto> Language ''nl'' ''iso01.16'' ''8859-1'' ''nl_NL.UTF-8'',
      ''pl'' \<mapsto> Language ''pl'' ''iso02.16'' ''8859-2'' ''pl_PL.UTF-8'',
      ''pt_BR'' \<mapsto> Language ''br-abnt2'' ''iso01.16'' ''8859-1'' ''pt_BR.UTF-8'',
      ''ru'' \<mapsto> Language ''ru'' ''Cyr_a8x16'' ''8859-5'' ''ru_RU.UTF-8'',
      ''sv'' \<mapsto> Language ''sv-latin1'' ''lat0-16'' ''8859-1'' ''sv_SE.UTF-8'',
      ''tr'' \<mapsto> Language ''trq'' ''lat5u-16'' ''8859-9'' ''tr_TR.UTF-8'']"

text \<open>
  \<^verbatim>\<open>LANGUAGES.has_key(lang)\<close>: the keys are strings, so a boolean or \<^verbatim>\<open>None\<close> is never
  a key.
\<close>

fun has_language :: "pyval \<Rightarrow> bool" where
  "has_language (Str s) = (LANGUAGES s \<noteq> None)"
| "has_language v = False"

text \<open>
  What the resolver reads from the machine: \<^verbatim>\<open>os.path.exists\<close> and the file contents.
\<close>

record boot_env =
  path_exists :: "string \<Rightarrow> bool"
  files :: filesystem

text \<open>
  \<^verbatim>\<open>load_config(path)\<close> (lines 92-101): the \<^verbatim>\<open>key=value\<close> lines that do not start with
  \<^verbatim>\<open>#\<close>, later lines overriding earlier ones. The \<^verbatim>\<open>open\<close> is not guarded, so an
  \<^verbatim>\<open>IOError\<close> propagates.
\<close>

definition is_quote1 :: "char \<Rightarrow> bool" where
  "is_quote1 c = (c = CHR 0x27)"

definition is_quote2 :: "char \<Rightarrow> bool" where
  "is_quote2 c = (c = CHR 0x22)"

definition config_line :: "string \<Rightarrow> (string \<rightharpoonup> string) \<Rightarrow> (string \<rightharpoonup> string)" where
  "config_line line data =
     (case split_first (CHR ''='') line of
        (key, val) \<Rightarrow>
          data(strip key \<mapsto> strip_chars is_quote2 (strip_chars is_quote1 (strip val))))"

definition load_config :: "filesystem \<Rightarrow> string \<Rightarrow> exn + (string \<rightharpoonup> string)" where
  "load_config fs path =
     (case open_read fs path of
        Inl e \<Rightarrow> Inl e
      | Inr content \<Rightarrow>
          Inr (fold config_line
                 (filter (\<lambda>line. CHR ''='' \<in> set line \<and> \<not> startswith ''#'' line)
                    (readlines content))
                 Map.empty))"

text \<open>
  \<^verbatim>\<open>get_kernel_option(option)\<close> (lines 157-180): the \<^verbatim>\<open>key[:value]\<close> fragments of every
  \<^verbatim>\<open>option=...\<close> token of \<^verbatim>\<open>/proc/cmdline\<close>; a fragment without \<^verbatim>\<open>:\<close> maps to the empty
  string. An unreadable \<^verbatim>\<open>/proc/cmdline\<close> gives the empty dictionary.
\<close>

definition kernel_arg :: "string \<Rightarrow> (string \<rightharpoonup> string) \<Rightarrow> (string \<rightharpoonup> string)" where
  "kernel_arg arg args =
     (if CHR '':'' \<in> set arg
      then (case split_first (CHR '':'') arg of (key, val) \<Rightarrow> args(key \<mapsto> val))
      else args(arg \<mapsto> []))"

definition kernel_cmd :: "string \<Rightarrow> string \<Rightarrow> (string \<rightharpoonup> string) \<Rightarrow> (string \<rightharpoonup> string)" where
  "kernel_cmd option cmd args =
     (case (if CHR ''='' \<in> set cmd then split_first (CHR ''='') cmd else (cmd, [])) of
        (optname, optargs) \<Rightarrow>
          if optname = option then fold kernel_arg (split_on (CHR '','') optargs) args
          else args)"

definition get_kernel_option :: "filesystem \<Rightarrow> string \<Rightarrow> exn + (string \<rightharpoonup> string)" where
  "get_kernel_option fs option =
     (case open_read fs ''/proc/cmdline'' of
        Inr content \<Rightarrow> Inr (fold (kernel_cmd option) (split_ws content) Map.empty)
      | Inl IOError \<Rightarrow> Inr Map.empty
      | Inl e \<Rightarrow> Inl e)"

text \<open>
  The \<^verbatim>\<open>Config\<close> object: the cached fstab (\<^verbatim>\<open>None\<close> until first use) and the options.
  The \<^verbatim>\<open>kernel\<close> attribute (the split \<^verbatim>\<open>uname\<close> release) is read by none of the
  functions embedded here and is left out. \<open>unknown_language\<close> records the argument of
  the \<^verbatim>\<open>print "Unknown language option ..."\<close> statement when it is executed.
\<close>

record config =
  fstab :: "string list list option"
  options :: optionmap
  unknown_language :: "pyval option"

definition default_options :: optionmap where
  "default_options =
     [''language'' \<mapsto> Str ''en'',
      ''clock'' \<mapsto> Str ''local'',
      ''clock_adjust'' \<mapsto> Str ''no'',
      ''tty_number'' \<mapsto> Str ''6'',
      ''lxc_guest'' \<mapsto> Str ''no'',
      ''keymap'' \<mapsto> NoneV,
      ''debug'' \<mapsto> Bool True,
      ''live'' \<mapsto> Bool False,
      ''safe'' \<mapsto> Bool False,
      ''forcefsck'' \<mapsto> Bool False,
      ''head_start'' \<mapsto> Str [],
      ''services'' \<mapsto> Str []]"

text \<open>
  The loop of \<^verbatim>\<open>parse_kernel_options\<close> (lines 375-376). The filter \<^verbatim>\<open>_k not in ("thin")\<close>
  tests against the string \<^verbatim>\<open>"thin"\<close> (the parentheses do not make a tuple), so it is a
  substring test. Each key is assigned once, so the order of the dictionary's keys
  does not matter.
\<close>

definition apply_kernel_options :: "(string \<rightharpoonup> string) \<Rightarrow> optionmap \<Rightarrow> optionmap" where
  "apply_kernel_options args opts =
     (\<lambda>k. case args k of
             None \<Rightarrow> opts k
           | Some v \<Rightarrow>
               if is_substring k ''thin'' then opts k
               else Some (if v \<noteq> [] then Str v else Bool True))"

text \<open>The first half of \<^verbatim>\<open>parse_kernel_options\<close> (lines 369-376): before normalisation.\<close>

definition merge_kernel_options :: "boot_env \<Rightarrow> optionmap \<Rightarrow> exn + optionmap" where
  "merge_kernel_options env opts =
     (case get_kernel_option (files env) ''mudur'' of
        Inl e \<Rightarrow> Inl e
      | Inr args \<Rightarrow>
          Inr (apply_kernel_options args
                 (opts(''live'' \<mapsto>
                    Bool (args ''thin'' \<noteq> None \<or> path_exists env ''/run/pisilinux/livemedia'')))))"

text \<open>
  The second half (lines 384-392): an unknown language becomes \<^verbatim>\<open>"en"\<close>, a false keymap
  becomes the language's keymap. A missing dictionary key raises \<^verbatim>\<open>KeyError\<close>.
\<close>

definition normalize_options :: "config \<Rightarrow> exn + config" where
  "normalize_options c =
     (case options c ''language'' of
        None \<Rightarrow> Inl KeyError
      | Some lang0 \<Rightarrow>
          let c1 = (if \<not> has_language lang0
                    then c\<lparr>options := (options c)(''language'' \<mapsto> Str ''en''),
                           unknown_language := Some lang0\<rparr>
                    else c);
              lang = (if \<not> has_language lang0 then Str ''en'' else lang0)
          in case options c1 ''keymap'' of
               None \<Rightarrow> Inl KeyError
             | Some km \<Rightarrow>
                 if \<not> truthy km
                 then (case lang of
                         Str l \<Rightarrow>
                           (case LANGUAGES l of
                              None \<Rightarrow> Inl KeyError
                            | Some la \<Rightarrow>
                                Inr (c1\<lparr>options := (options c1)(''keymap'' \<mapsto> Str (keymap la))\<rparr>))
                       | _ \<Rightarrow> Inl KeyError)
                 else Inr c1)"

definition parse_kernel_options :: "boot_env \<Rightarrow> config \<Rightarrow> exn + config" where
  "parse_kernel_options env c =
     (case merge_kernel_options env (options c) of
        Inl e \<Rightarrow> Inl e
      | Inr opts \<Rightarrow> normalize_options (c\<lparr>options := opts\<rparr>))"

text \<open>
  The dictionary read from \<^verbatim>\<open>/etc/conf.d/mudur\<close> when that path exists (lines 355-356),
  the empty one otherwise.
\<close>

definition config_file_options :: "boot_env \<Rightarrow> exn + (string \<rightharpoonup> string)" where
  "config_file_options env =
     (if path_exists env ''/etc/conf.d/mudur''
      then load_config (files env) ''/etc/conf.d/mudur''
      else Inr Map.empty)"

text \<open>\<^verbatim>\<open>self.options.update(d)\<close> for a dictionary of strings.\<close>

definition update_options :: "optionmap \<Rightarrow> (string \<rightharpoonup> string) \<Rightarrow> optionmap" where
  "update_options opts d = (\<lambda>k. case d k of None \<Rightarrow> opts k | Some v \<Rightarrow> Some (Str v))"

text \<open>\<^verbatim>\<open>Config.__init__\<close> (lines 331-362).\<close>

definition Config_init :: "boot_env \<Rightarrow> exn + config" where
  "Config_init env =
     (case config_file_options env of
        Inl e \<Rightarrow> Inl e
      | Inr conf \<Rightarrow>
          parse_kernel_options env
            \<lparr>fstab = None,
             options = (update_options default_options conf)
                         (''forcefsck'' \<mapsto> Bool (path_exists env ''/forcefsck'')),
             unknown_language = None\<rparr>)"

text \<open>
  The precedence rule in the specification's words: the kernel command line's fragment
  if there is one (a fragment without a value counts as true), else the config file's
  value, else the built-in default.
\<close>

definition precedence ::
  "(string \<rightharpoonup> string) \<Rightarrow> (string \<rightharpoonup> string) \<Rightarrow> string \<Rightarrow> pyval option" where
  "precedence args conf k =
     (case args k of
        Some v \<Rightarrow> Some (if v \<noteq> [] then Str v else Bool True)
      | None \<Rightarrow> (case conf k of Some v \<Rightarrow> Some (Str v) | None \<Rightarrow> default_options k))"


definition env_forcefsck_cmdline :: boot_env where
  "env_forcefsck_cmdline =
     \<lparr>path_exists = (\<lambda>p. False),
      files = (\<lambda>p. if p = ''/proc/cmdline'' then Some ''root=/dev/sda1 mudur=forcefsck\<newline>''
                    else None)\<rparr>"

definition env_language_xx :: boot_env where
  "env_language_xx =
     \<lparr>path_exists = (\<lambda>p. p = ''/etc/conf.d/mudur'' \<or> p = ''/forcefsck''),
      files = (\<lambda>p. if p = ''/etc/conf.d/mudur''
                    then Some ''# mudur\<newline>language = \"tr\"\<newline>forcefsck=no\<newline>clock=UTC\<newline>''
                    else if p = ''/proc/cmdline''
                    then Some ''root=/dev/sda1 mudur=language:xx,safe quiet\<newline>''
                    else None)\<rparr>"

text \<open>
  The options of \<^verbatim>\<open>Config.__init__\<close> at the comment \<^verbatim>\<open># Normalize options\<close>: defaults,
  config file, sentinel test and kernel options merged, nothing normalised yet.
\<close>

definition merged_options :: "boot_env \<Rightarrow> exn + optionmap" where
  "merged_options env =
     (case config_file_options env of
        Inl e \<Rightarrow> Inl e
      | Inr conf \<Rightarrow>
          merge_kernel_options env
            ((update_options default_options conf)
               (''forcefsck'' \<mapsto> Bool (path_exists env ''/forcefsck''))))"

text \<open>Projections of a machine, for statements about concrete machines.\<close>

definition resolved :: "boot_env \<Rightarrow> string \<Rightarrow> pyval option" where
  "resolved env k = (case Config_init env of Inr c \<Rightarrow> options c k | Inl e \<Rightarrow> None)"


section \<open>Effects: commands, console output and the machine\<close>

text \<open>
  The stage procedures act on the machine only through external commands and a few
  system calls. Every action is recorded as an event, together with what the program
  observed. The machine is an oracle: what a command or a system call yields is a
  function of the events so far.
\<close>

text \<open>
  How \<^verbatim>\<open>subprocess.call\<close> ends: the command exits with a status (negative when killed
  by a signal), or the call never returns (the machine reboots, an interactive shell is
  never left), or the program cannot be started and \<^verbatim>\<open>OSError\<close> is raised.
\<close>

datatype call_outcome = Exited int | NeverReturns | NotStarted

text \<open>
  The three wrappers differ in what they redirect: \<^verbatim>\<open>run\<close> hides standard output,
  \<^verbatim>\<open>run_quiet\<close> hides both streams, \<^verbatim>\<open>run_full\<close> hides nothing.
\<close>

datatype redirect = NoStdout | Quiet | Full

text \<open>System calls that either succeed or raise.\<close>

datatype oscall = Chdir string | Copy string string | Unlink string

datatype event =
    Exec redirect "string list" call_outcome
  | System string "int option"
  | Os oscall "exn option"
  | Print string
  | Log string
  | Info string
  | Warn string
  | Error string
  | Sleep nat

record machine =
  call_result :: "event list \<Rightarrow> string list \<Rightarrow> call_outcome"
  system_status :: "event list \<Rightarrow> string \<Rightarrow> int option"
  oscall_error :: "event list \<Rightarrow> oscall \<Rightarrow> exn option"
  file_content :: "event list \<Rightarrow> string \<Rightarrow> string option"
  exists_path :: "event list \<Rightarrow> string \<Rightarrow> bool"
  is_file :: "event list \<Rightarrow> string \<Rightarrow> bool"
  is_dir :: "event list \<Rightarrow> string \<Rightarrow> bool"

text \<open>
  How a procedure ends, with the events it emitted: it returns a value, it never
  returns, it raises an exception, or it leaves the process through \<^verbatim>\<open>sys.exit\<close>.
\<close>

datatype 'a result =
    Return 'a "event list"
  | Hang "event list"
  | Raise exn "event list"
  | SysExit int "event list"

text \<open>A procedure takes the events so far and yields its result.\<close>

type_synonym 'a prog = "event list \<Rightarrow> 'a result"

fun events :: "'a result \<Rightarrow> event list" where
  "events (Return a es) = es"
| "events (Hang es) = es"
| "events (Raise e es) = es"
| "events (SysExit n es) = es"

fun after :: "event list \<Rightarrow> 'a result \<Rightarrow> 'a result" where
  "after es (Return a es') = Return a (es @ es')"
| "after es (Hang es') = Hang (es @ es')"
| "after es (Raise e es') = Raise e (es @ es')"
| "after es (SysExit n es') = SysExit n (es @ es')"

text \<open>Sequencing: the second procedure runs only when the first one returns.\<close>

definition pbind :: "'a prog \<Rightarrow> ('a \<Rightarrow> 'b prog) \<Rightarrow> 'b prog" where
  "pbind m f h =
     (case m h of
        Return a es \<Rightarrow> after es (f a (h @ es))
      | Hang es \<Rightarrow> Hang es
      | Raise e es \<Rightarrow> Raise e es
      | SysExit n es \<Rightarrow> SysExit n es)"

definition bind_result :: "'a result \<Rightarrow> ('a \<Rightarrow> 'b prog) \<Rightarrow> event list \<Rightarrow> 'b result" where
  "bind_result r f h =
     (case r of
        Return a es \<Rightarrow> after es (f a (h @ es))
      | Hang es \<Rightarrow> Hang es
      | Raise e es \<Rightarrow> Raise e es
      | SysExit n es \<Rightarrow> SysExit n es)"

definition pseq :: "'a prog \<Rightarrow> 'b prog \<Rightarrow> 'b prog" where
  "pseq m n = pbind m (\<lambda>_. n)"

definition ret :: "'a \<Rightarrow> 'a prog" where
  "ret a h = Return a []"

definition emit :: "event \<Rightarrow> unit prog" where
  "emit e h = Return () [e]"

definition raise :: "exn \<Rightarrow> 'a prog" where
  "raise e h = Raise e []"

text \<open>\<^verbatim>\<open>sys.exit(n)\<close>.\<close>

definition sys_exit :: "int \<Rightarrow> 'a prog" where
  "sys_exit n h = SysExit n []"

text \<open>\<^verbatim>\<open>subprocess.call(cmd, ...)\<close>, the body of \<^verbatim>\<open>run\<close>, \<^verbatim>\<open>run_full\<close> and \<^verbatim>\<open>run_quiet\<close>.\<close>

definition call :: "machine \<Rightarrow> redirect \<Rightarrow> string list \<Rightarrow> int prog" where
  "call M r cmd h =
     (case call_result M h cmd of
        Exited n \<Rightarrow> Return n [Exec r cmd (Exited n)]
      | NeverReturns \<Rightarrow> Hang [Exec r cmd NeverReturns]
      | NotStarted \<Rightarrow> Raise OSError [Exec r cmd NotStarted])"

definition run :: "machine \<Rightarrow> string list \<Rightarrow> int prog" where
  "run M cmd = call M NoStdout cmd"

definition run_full :: "machine \<Rightarrow> string list \<Rightarrow> int prog" where
  "run_full M cmd = call M Full cmd"

definition run_quiet :: "machine \<Rightarrow> string list \<Rightarrow> int prog" where
  "run_quiet M cmd = call M Quiet cmd"

text \<open>\<^verbatim>\<open>os.system(cmd)\<close>: the status of the shell, or no return.\<close>

definition os_system :: "machine \<Rightarrow> string \<Rightarrow> int prog" where
  "os_system M cmd h =
     (case system_status M h cmd of
        Some n \<Rightarrow> Return n [System cmd (Some n)]
      | None \<Rightarrow> Hang [System cmd None])"

text \<open>\<^verbatim>\<open>os.chdir\<close>, \<^verbatim>\<open>shutil.copy\<close>, \<^verbatim>\<open>os.unlink\<close>.\<close>

definition os_call :: "machine \<Rightarrow> oscall \<Rightarrow> unit prog" where
  "os_call M c h =
     (case oscall_error M h c of
        None \<Rightarrow> Return () [Os c None]
      | Some e \<Rightarrow> Raise e [Os c (Some e)])"

text \<open>\<^verbatim>\<open>load_file(path)\<close> on the machine as it is after the events so far.\<close>

definition read_file :: "machine \<Rightarrow> string \<Rightarrow> string prog" where
  "read_file M path h =
     (case load_file (file_content M h) path of
        Inr s \<Rightarrow> Return s []
      | Inl e \<Rightarrow> Raise e [])"

text \<open>\<^verbatim>\<open>os.path.exists\<close>, \<^verbatim>\<open>os.path.isfile\<close>, \<^verbatim>\<open>os.path.isdir\<close>.\<close>

definition path_exists_now :: "machine \<Rightarrow> string \<Rightarrow> bool prog" where
  "path_exists_now M path h = Return (exists_path M h path) []"

definition isfile :: "machine \<Rightarrow> string \<Rightarrow> bool prog" where
  "isfile M path h = Return (is_file M h path) []"

definition isdir :: "machine \<Rightarrow> string \<Rightarrow> bool prog" where
  "isdir M path h = Return (is_dir M h path) []"

section \<open>Cgroup Bootstrap (mudur\_cgroupfs.py)\<close>

text \<open>\<^verbatim>\<open>int(s)\<close> on a field of \<^verbatim>\<open>/proc/cgroups\<close>: an optional sign and decimal digits.\<close>

definition is_digit :: "char \<Rightarrow> bool" where
  "is_digit c = (CHR ''0'' \<le> c \<and> c \<le> CHR ''9'')"

definition digits_value :: "string \<Rightarrow> int" where
  "digits_value s = foldl (\<lambda>n c. 10 * n + (int (of_char c) - 48)) 0 s"

definition parse_int :: "string \<Rightarrow> int option" where
  "parse_int s =
     (let body = (if s \<noteq> [] \<and> (hd s = CHR ''-'' \<or> hd s = CHR ''+'') then tl s else s)
      in if body = [] \<or> \<not> list_all is_digit body then None
         else Some (if s \<noteq> [] \<and> hd s = CHR ''-'' then - digits_value body
                    else digits_value body))"

text \<open>\<^verbatim>\<open>s.find(p)\<close>: the index of the first occurrence of \<open>p\<close> in \<open>s\<close>, or \<open>-1\<close>.\<close>

fun str_find :: "string \<Rightarrow> string \<Rightarrow> int" where
  "str_find [] p = (if p = [] then 0 else -1)"
| "str_find (x # xs) p =
     (if startswith p (x # xs) then 0
      else (case str_find xs p of r \<Rightarrow> if r < 0 then -1 else r + 1))"

text \<open>Python truthiness of an integer.\<close>

definition int_truthy :: "int \<Rightarrow> bool" where
  "int_truthy n = (n \<noteq> 0)"

record controller =
  subsysname :: string
  hierarchy :: int
  num_cgroups :: int
  enabled :: int

definition Controller :: "string \<Rightarrow> int \<Rightarrow> int \<Rightarrow> int \<Rightarrow> controller" where
  "Controller s h n e = \<lparr>subsysname = s, hierarchy = h, num_cgroups = n, enabled = e\<rparr>"

text \<open>\<^verbatim>\<open>mountpoint(path)\<close> (lines 4-9).\<close>

definition mountpoint :: "machine \<Rightarrow> string \<Rightarrow> bool prog" where
  "mountpoint M path =
     pbind (os_system M (''mountpoint -q '' @ path))
       (\<lambda>status. ret (status = 0))"

text \<open>The shell command of \<^verbatim>\<open>Controller.mount\<close> (line 23).\<close>

definition mount_command :: "string \<Rightarrow> string" where
  "mount_command s = ''mkdir -p '' @ s @ ''; mount -n -t cgroup -o '' @ s @ '' cgroup '' @ s"

text \<open>
  \<^verbatim>\<open>Controller.mount\<close> (lines 18-27): returns \<^verbatim>\<open>True\<close> or \<^verbatim>\<open>False\<close> after a mount attempt
  and \<^verbatim>\<open>None\<close> when it attempts nothing.
\<close>

definition Controller_mount :: "machine \<Rightarrow> controller \<Rightarrow> bool option prog" where
  "Controller_mount M c =
     (if enabled c = 1
      then pseq (os_call M (Chdir ''/sys/fs/cgroup''))
             (pbind (mountpoint M (subsysname c))
                (\<lambda>mounted.
                   if mounted = False
                   then pbind (os_system M (mount_command (subsysname c)))
                          (\<lambda>status. ret (Some (status = 0)))
                   else ret None))
      else ret None)"

text \<open>
  The loop \<^verbatim>\<open>for cname, c in self.controllers.items(): c.mount()\<close> (lines 47-48), over the
  items in the order the dictionary yields them.
\<close>

fun mount_controllers :: "machine \<Rightarrow> controller list \<Rightarrow> unit prog" where
  "mount_controllers M [] = ret ()"
| "mount_controllers M (c # cs) = pseq (Controller_mount M c) (mount_controllers M cs)"

text \<open>
  \<^verbatim>\<open>Cgroupfs.check_fstab\<close> (lines 50-58). \<^verbatim>\<open>line.find("cgroup")\<close> is an index, and it is
  tested for truth: it is false only when the line starts with \<^verbatim>\<open>cgroup\<close>. Every line of
  \<^verbatim>\<open>readlines\<close> has at least one character, so \<^verbatim>\<open>line[0]\<close> does not fail.
\<close>

definition check_fstab_line :: "string \<Rightarrow> bool \<Rightarrow> bool" where
  "check_fstab_line line found =
     (if hd line = CHR ''#'' then found
      else if int_truthy (str_find line ''cgroup'') then True else found)"

definition check_fstab :: "machine \<Rightarrow> bool prog" where
  "check_fstab M h =
     (case open_read (file_content M h) ''/etc/fstab'' of
        Inl e \<Rightarrow> Raise e []
      | Inr content \<Rightarrow> Return (fold check_fstab_line (readlines content) False) [])"

text \<open>
  What \<^verbatim>\<open>x == True\<close> compares. In \<^verbatim>\<open>Cgroupfs.__init__\<close> the left-hand side of the first
  guard is \<^verbatim>\<open>self.check_fstab\<close> without a call: the bound method itself, which is not
  equal to \<^verbatim>\<open>True\<close>.
\<close>

datatype pyobject = BoundMethod | PyBool bool

fun equals_True :: "pyobject \<Rightarrow> bool" where
  "equals_True (PyBool b) = b"
| "equals_True BoundMethod = False"

text \<open>\<^verbatim>\<open>kernel_support\<close>, \<^verbatim>\<open>check_sysfs\<close>, \<^verbatim>\<open>mount_cgroup\<close> (lines 60-69).\<close>

definition kernel_support :: "machine \<Rightarrow> bool prog" where
  "kernel_support M = isfile M ''/proc/cgroups''"

definition check_sysfs :: "machine \<Rightarrow> bool prog" where
  "check_sysfs M = isdir M ''/sys/fs/cgroup''"

definition mount_cgroup :: "machine \<Rightarrow> int option prog" where
  "mount_cgroup M =
     pbind (mountpoint M ''/sys/fs/cgroup'')
       (\<lambda>mounted.
          if mounted = False
          then pbind (os_system M '' mount -t tmpfs -o uid=0,gid=0,mode=0755 cgroup /sys/fs/cgroup'')
                 (\<lambda>status. ret (Some status))
          else ret None)"

text \<open>
  \<^verbatim>\<open>find_controllers\<close> (lines 71-81). The dictionary is kept as an association list:
  assigning to a key that is present replaces its value in place. A stripped line that
  is empty fails at \<^verbatim>\<open>line[0]\<close>, a line that has not four fields fails at the unpacking,
  a field that is not a number fails in \<^verbatim>\<open>int\<close>.
\<close>

fun dict_set :: "'k \<Rightarrow> 'v \<Rightarrow> ('k \<times> 'v) list \<Rightarrow> ('k \<times> 'v) list" where
  "dict_set k v [] = [(k, v)]"
| "dict_set k v ((k', v') # kvs) =
     (if k = k' then (k, v) # kvs else (k', v') # dict_set k v kvs)"

definition controller_line ::
  "string \<Rightarrow> (string \<times> controller) list \<Rightarrow> exn + (string \<times> controller) list" where
  "controller_line raw cs =
     (let line = strip raw in
      if line = [] then Inl IndexError
      else if hd line = CHR ''#'' then Inr cs
      else (case split_ws line of
              [s, h, n, e] \<Rightarrow>
                (case parse_int e of
                   None \<Rightarrow> Inl ValueError
                 | Some enb \<Rightarrow>
                     (case parse_int h of
                        None \<Rightarrow> Inl ValueError
                      | Some hie \<Rightarrow>
                          (case parse_int n of
                             None \<Rightarrow> Inl ValueError
                           | Some numc \<Rightarrow> Inr (dict_set s (Controller s hie numc enb) cs))))
            | _ \<Rightarrow> Inl ValueError))"

fun controller_lines ::
  "string list \<Rightarrow> (string \<times> controller) list \<Rightarrow> exn + (string \<times> controller) list" where
  "controller_lines [] cs = Inr cs"
| "controller_lines (l # ls) cs =
     (case controller_line l cs of Inl e \<Rightarrow> Inl e | Inr cs' \<Rightarrow> controller_lines ls cs')"

definition find_controllers :: "machine \<Rightarrow> (string \<times> controller) list prog" where
  "find_controllers M h =
     (case open_read (file_content M h) ''/proc/cgroups'' of
        Inl e \<Rightarrow> Raise e []
      | Inr content \<Rightarrow>
          (case controller_lines (readlines content) [] of
             Inl e \<Rightarrow> Raise e []
           | Inr cs \<Rightarrow> Return cs []))"

text \<open>
  \<^verbatim>\<open>Cgroupfs.__init__\<close> (lines 31-48). The controllers are mounted in the order of the
  association list; a Python 2 dictionary yields its items in another order, which the
  facts about \<open>mount_controllers\<close> do not depend on (they hold for every list).
\<close>

definition Cgroupfs_init :: "machine \<Rightarrow> unit prog" where
  "Cgroupfs_init M =
     (if equals_True BoundMethod
      then pseq (emit (Print ''cgroupfs in fstab, exiting.'')) (sys_exit (-1))
      else pbind (kernel_support M)
        (\<lambda>ks. if ks = False
               then pseq (emit (Print ''No kernel support for cgroupfs, exiting.'')) (sys_exit (-2))
               else pbind (check_sysfs M)
                 (\<lambda>sf. if sf = False
                        then pseq (emit (Print ''/sys/fs/cgroups directory not found, exiting''))
                               (sys_exit (-3))
                        else pseq (mount_cgroup M)
                               (pbind (find_controllers M)
                                  (\<lambda>cs. mount_controllers M (map snd cs))))))"

text \<open>A result that leaves the process through \<^verbatim>\<open>sys.exit\<close> with a given status.\<close>

fun exits_with :: "'a result \<Rightarrow> int \<Rightarrow> bool" where
  "exits_with (SysExit n es) k = (n = k)"
| "exits_with r k = False"

text \<open>The events that are mount attempts of a controller.\<close>

fun is_controller_mount :: "event \<Rightarrow> bool" where
  "is_controller_mount (System cmd status) = startswith ''mkdir -p '' cmd"
| "is_controller_mount e = False"

text \<open>
  An example machine: the fstab has a cgroup line, the kernel reports three controllers
  (one disabled), the cgroup root is mounted, no controller is, every mount succeeds.
\<close>

definition cgroup_machine :: machine where
  "cgroup_machine =
     \<lparr>call_result = (\<lambda>h cmd. Exited 0),
      system_status = (\<lambda>h cmd. if cmd = ''mountpoint -q /sys/fs/cgroup'' then Some 0
                               else if startswith ''mountpoint -q '' cmd then Some 256
                               else Some 0),
      oscall_error = (\<lambda>h c. None),
      file_content = (\<lambda>h p.
         if p = ''/etc/fstab''
         then Some ''/dev/sda1 / ext4 defaults 0 1\<newline>cgroup /sys/fs/cgroup cgroup defaults 0 0\<newline>''
         else if p = ''/proc/cgroups''
         then Some ''#subsys_name hierarchy num_cgroups enabled\<newline>cpu 0 1 1\<newline>memory 0 1 0\<newline>''
         else None),
      exists_path = (\<lambda>h p. True),
      is_file = (\<lambda>h p. p = ''/proc/cgroups''),
      is_dir = (\<lambda>h p. p = ''/sys/fs/cgroup'')\<rparr>"

text \<open>The same machine with every controller directory already a mountpoint.\<close>

definition mounted_machine :: machine where
  "mounted_machine = cgroup_machine\<lparr>system_status := (\<lambda>h cmd. Some 0)\<rparr>"

section \<open>Stage procedures (mudur.py)\<close>

subsection \<open>The global objects CONFIG, LOGGER, SPLASH and UI\<close>

text \<open>
  \<^verbatim>\<open>Config.get\<close> (lines 394-400): a missing key is reported, the procedure sleeps three
  seconds and yields \<^verbatim>\<open>None\<close>.
\<close>

definition CONFIG_get :: "config \<Rightarrow> string \<Rightarrow> pyval prog" where
  "CONFIG_get c key =
     (case options c key of
        Some v \<Rightarrow> ret v
      | None \<Rightarrow>
          pseq (emit (Print (''Unknown option '' @ [CHR 0x27] @ key @ [CHR 0x27] @ '' requested'')))
            (pseq (emit (Sleep 3)) (ret NoneV)))"

text \<open>
  \<^verbatim>\<open>Config.get_fstab_entry_with_mountpoint\<close> (lines 402-410): the fstab is parsed when the
  cache is empty; the result is the first entry with more than three fields whose
  second field is the mountpoint, together with the configuration and its cache.
\<close>

definition fstab_entries :: "machine \<Rightarrow> config \<Rightarrow> string list list prog" where
  "fstab_entries M c =
     (if fstab c = None \<or> fstab c = Some []
      then pbind (read_file M ''/etc/fstab'') (\<lambda>data. ret (map split_ws (split_on nl data)))
      else ret (case fstab c of Some tab \<Rightarrow> tab | None \<Rightarrow> []))"

definition get_fstab_entry_with_mountpoint ::
  "machine \<Rightarrow> config \<Rightarrow> string \<Rightarrow> (string list option \<times> config) prog" where
  "get_fstab_entry_with_mountpoint M c mp =
     pbind (fstab_entries M c)
       (\<lambda>tab. ret (find (\<lambda>entry. entry \<noteq> [] \<and> length entry > 3 \<and> entry ! 1 = mp) tab,
                    c\<lparr>fstab := Some tab\<rparr>))"

text \<open>The \<^verbatim>\<open>Plymouth\<close> object (lines 417-460): commands reach the client only while the
  daemon runs.\<close>

record plymouth =
  available :: bool
  running :: bool

definition send_cmd :: "machine \<Rightarrow> plymouth \<Rightarrow> string list \<Rightarrow> unit prog" where
  "send_cmd M sp cmd =
     (if running sp then pbind (run_quiet M (''/bin/plymouth'' # cmd)) (\<lambda>_. ret ())
      else ret ())"

definition SPLASH_hide_splash :: "machine \<Rightarrow> plymouth \<Rightarrow> unit prog" where
  "SPLASH_hide_splash M sp = send_cmd M sp [''hide-splash'']"

definition SPLASH_report_error :: "machine \<Rightarrow> plymouth \<Rightarrow> unit prog" where
  "SPLASH_report_error M sp = send_cmd M sp [''report-error'']"

definition SPLASH_update :: "machine \<Rightarrow> plymouth \<Rightarrow> string \<Rightarrow> unit prog" where
  "SPLASH_update M sp milestone = send_cmd M sp [''update'', ''--status='' @ milestone]"

definition SPLASH_quit :: "machine \<Rightarrow> plymouth \<Rightarrow> bool \<Rightarrow> unit prog" where
  "SPLASH_quit M sp retain_splash =
     send_cmd M sp [''quit'', if retain_splash then ''--retain-splash'' else []]"

text \<open>
  \<^verbatim>\<open>Ui.info\<close>, \<^verbatim>\<open>Ui.warn\<close>, \<^verbatim>\<open>Ui.error\<close> (lines 503-521): \<^verbatim>\<open>Log\<close> is the line appended by
  \<^verbatim>\<open>LOGGER.log\<close>, the other event is the line written to the console.
\<close>

definition UI_info :: "config \<Rightarrow> string \<Rightarrow> unit prog" where
  "UI_info c msg =
     pbind (CONFIG_get c ''debug'')
       (\<lambda>debug. pseq (if truthy debug then emit (Log msg) else ret ()) (emit (Info msg)))"

definition UI_warn :: "string \<Rightarrow> unit prog" where
  "UI_warn msg = pseq (emit (Log msg)) (emit (Warn msg))"

definition UI_error :: "machine \<Rightarrow> plymouth \<Rightarrow> string \<Rightarrow> unit prog" where
  "UI_error M sp msg =
     pseq (SPLASH_report_error M sp) (pseq (emit (Log msg)) (emit (Error msg)))"

subsection \<open>Decorators\<close>

text \<open>
  \<^verbatim>\<open>skip_for_lxc_guests\<close> and \<^verbatim>\<open>plymouth_update_milestone\<close> (lines 38-52). The decorated
  procedures return nothing; the value carried here is \<^verbatim>\<open>CONFIG\<close> as the call leaves it.
\<close>

definition skip_for_lxc_guests :: "config \<Rightarrow> config prog \<Rightarrow> config prog" where
  "skip_for_lxc_guests c function =
     pbind (CONFIG_get c ''lxc_guest'')
       (\<lambda>guest. if guest = Str ''no'' then function else ret c)"

definition plymouth_update_milestone ::
  "machine \<Rightarrow> plymouth \<Rightarrow> string \<Rightarrow> config prog \<Rightarrow> config prog" where
  "plymouth_update_milestone M sp name function =
     pbind function (\<lambda>c'. pseq (SPLASH_update M sp name) (ret c'))"

subsection \<open>Filesystem checks\<close>

text \<open>The bell loop of the forced reboot (lines 921-925).\<close>

function bell_loop :: "nat \<Rightarrow> unit prog" where
  "bell_loop i =
     (if i < 4
      then pseq (emit (Print [CHR 0x07])) (pseq (emit (Sleep 1)) (bell_loop (i + 1)))
      else ret ())"
  by pat_completeness auto
termination
  by (relation "measure (\<lambda>i. 4 - i)") auto

declare bell_loop.simps [simp del]

text \<open>
  The exit-code policy of the root check (lines 913-934), for the status \<open>r\<close> of fsck.
\<close>

definition root_fsck_policy :: "machine \<Rightarrow> plymouth \<Rightarrow> int \<Rightarrow> unit prog" where
  "root_fsck_policy M sp r =
     (if r = 0 then ret ()
      else if r = 2 \<or> r = 3
      then pseq (SPLASH_hide_splash M sp)
             (pseq (UI_warn ''Filesystem repaired, but reboot needed!'')
                (pseq (bell_loop 0)
                   (pseq (UI_warn ''Rebooting in 10 seconds...'')
                      (pseq (emit (Sleep 10))
                         (pseq (UI_warn ''Rebooting...'')
                            (pbind (run M [''/sbin/reboot'', ''-f'']) (\<lambda>_. ret ())))))))
      else pseq (UI_error M sp ''Filesystem could not be repaired'')
             (pbind (run_full M [''/sbin/sulogin'']) (\<lambda>_. ret ())))"

text \<open>The body of \<^verbatim>\<open>check_root_filesystem\<close> (lines 889-937).\<close>

definition check_root_filesystem_body :: "machine \<Rightarrow> plymouth \<Rightarrow> config \<Rightarrow> config prog" where
  "check_root_filesystem_body M sp c =
     pbind (CONFIG_get c ''live'')
       (\<lambda>live.
          if \<not> truthy live
          then pbind (get_fstab_entry_with_mountpoint M c ''/'')
            (\<lambda>(entry, c1).
               case entry of
                 None \<Rightarrow>
                   pseq (UI_warn ''/etc/fstab doesn't contain an entry for the root filesystem'')
                     (ret c1)
               | Some en \<Rightarrow>
                   pbind (CONFIG_get c1 ''forcefsck'')
                     (\<lambda>force.
                        if truthy force \<or> (length en > 5 \<and> en ! 5 \<noteq> ''0'')
                        then pseq (UI_info c1 ''Remounting root filesystem read-only'')
                          (pseq (run_quiet M [''/bin/mount'', ''-n'', ''-o'', ''remount,ro'', ''/''])
                             (pbind (CONFIG_get c1 ''forcefsck'')
                                (\<lambda>force2.
                                   pbind
                                     (if truthy force2
                                      then pseq (SPLASH_hide_splash M sp)
                                        (pseq (UI_info c1 ''Checking root filesystem (full check forced)'')
                                           (run_full M [''/sbin/fsck'', ''-C'', ''-y'', ''-f'', ''/'']))
                                      else pseq (UI_info c1 ''Checking root filesystem'')
                                        (run_full M [''/sbin/fsck'', ''-C'', ''-T'', ''-a'', ''/'']))
                                     (\<lambda>r. pseq (root_fsck_policy M sp r) (ret c1)))))
                        else pseq (UI_info c1 ''Skipping root filesystem check (fstab's passno == 0)'')
                               (ret c1)))
          else ret c)"

definition check_root_filesystem :: "machine \<Rightarrow> plymouth \<Rightarrow> config \<Rightarrow> config prog" where
  "check_root_filesystem M sp c =
     skip_for_lxc_guests c
       (plymouth_update_milestone M sp ''check_root_filesystem''
          (check_root_filesystem_body M sp c))"

text \<open>The exit-code policy of the check of all filesystems (lines 1000-1007).\<close>

definition filesystems_fsck_policy :: "machine \<Rightarrow> plymouth \<Rightarrow> int \<Rightarrow> unit prog" where
  "filesystems_fsck_policy M sp r =
     (if r = 0 then ret ()
      else if r \<ge> 2 \<and> r \<le> 3 then UI_warn ''Filesystem errors corrected''
      else pseq (UI_error M sp ''Fsck could not correct all errors, manual repair needed'')
             (pbind (run_full M [''/sbin/sulogin'']) (\<lambda>_. ret ())))"

text \<open>The body of \<^verbatim>\<open>check_filesystems\<close> (lines 980-1007).\<close>

definition check_filesystems_body :: "machine \<Rightarrow> plymouth \<Rightarrow> config \<Rightarrow> config prog" where
  "check_filesystems_body M sp c =
     pbind (CONFIG_get c ''live'')
       (\<lambda>live.
          if \<not> truthy live
          then pseq (UI_info c ''Checking all filesystems'')
            (pbind (CONFIG_get c ''forcefsck'')
               (\<lambda>force.
                  pbind
                    (if truthy force
                     then pseq (SPLASH_hide_splash M sp)
                       (pseq (UI_info c ''A full fsck has been forced'')
                          (pbind (run_full M [''/sbin/fsck'', ''-C'', ''-R'', ''-A'', ''-a'', ''-f''])
                             (\<lambda>r. pbind (path_exists_now M ''/forcefsck'')
                                (\<lambda>ex. pseq (if ex then os_call M (Unlink ''/forcefsck'') else ret ())
                                         (ret r)))))
                     else run_full M [''/sbin/fsck'', ''-C'', ''-T'', ''-R'', ''-A'', ''-a''])
                    (\<lambda>r. pseq (filesystems_fsck_policy M sp r) (ret c))))
          else ret c)"

definition check_filesystems :: "machine \<Rightarrow> plymouth \<Rightarrow> config \<Rightarrow> config prog" where
  "check_filesystems M sp c =
     skip_for_lxc_guests c
       (plymouth_update_milestone M sp ''check_filesystems''
          (check_filesystems_body M sp c))"

subsection \<open>Observing a run of a filesystem check\<close>

text \<open>The events that are an fsck call, a call of the plymouth client.\<close>

fun is_fsck :: "event \<Rightarrow> bool" where
  "is_fsck (Exec r cmd out) = (take 1 cmd = [''/sbin/fsck''])"
| "is_fsck e = False"

fun is_plymouth :: "event \<Rightarrow> bool" where
  "is_plymouth (Exec r cmd out) = (take 1 cmd = [''/bin/plymouth''])"
| "is_plymouth e = False"

text \<open>How the first fsck call of a run ended, if there was one.\<close>

fun outcome_of :: "event \<Rightarrow> call_outcome option" where
  "outcome_of (Exec r cmd out) = Some out"
| "outcome_of e = None"

definition fsck_outcome :: "event list \<Rightarrow> call_outcome option" where
  "fsck_outcome es = (case find is_fsck es of Some e \<Rightarrow> outcome_of e | None \<Rightarrow> None)"

text \<open>The events after the first fsck call, and the events that are not splash traffic.\<close>

definition after_fsck :: "event list \<Rightarrow> event list" where
  "after_fsck es = tl (dropWhile (\<lambda>e. \<not> is_fsck e) es)"

definition visible :: "event list \<Rightarrow> event list" where
  "visible es = filter (\<lambda>e. \<not> is_plymouth e) es"

text \<open>The plymouth client exits whenever it is called.\<close>

definition plymouth_returns :: "machine \<Rightarrow> bool" where
  "plymouth_returns M = (\<forall>h cmd. \<exists>n. call_result M h (''/bin/plymouth'' # cmd) = Exited n)"

text \<open>Removing the sentinel file succeeds whenever it is tried.\<close>

definition unlink_succeeds :: "machine \<Rightarrow> bool" where
  "unlink_succeeds M = (\<forall>h. oscall_error M h (Unlink ''/forcefsck'') = None)"

fun is_Return :: "'a result \<Rightarrow> bool" where
  "is_Return (Return a es) = True"
| "is_Return r = False"

fun is_Hang :: "'a result \<Rightarrow> bool" where
  "is_Hang (Hang es) = True"
| "is_Hang r = False"

text \<open>
  What the forced-reboot path shows before it calls \<^verbatim>\<open>reboot -f\<close>: the warning, four
  bells one second apart, the announcement, ten seconds, the last warning.
\<close>

definition forced_reboot_path :: "event list" where
  "forced_reboot_path =
     [Log ''Filesystem repaired, but reboot needed!'',
      Warn ''Filesystem repaired, but reboot needed!'',
      Print [CHR 0x07], Sleep 1, Print [CHR 0x07], Sleep 1,
      Print [CHR 0x07], Sleep 1, Print [CHR 0x07], Sleep 1,
      Log ''Rebooting in 10 seconds...'', Warn ''Rebooting in 10 seconds...'',
      Sleep 10,
      Log ''Rebooting...'', Warn ''Rebooting...'']"

text \<open>The events of the always-returning pieces, as functions of the configuration.\<close>

definition option_value :: "config \<Rightarrow> string \<Rightarrow> pyval" where
  "option_value c key = (case options c key of Some v \<Rightarrow> v | None \<Rightarrow> NoneV)"

definition missing_key_events :: "config \<Rightarrow> string \<Rightarrow> event list" where
  "missing_key_events c key =
     (case options c key of
        Some v \<Rightarrow> []
      | None \<Rightarrow>
          [Print (''Unknown option '' @ [CHR 0x27] @ key @ [CHR 0x27] @ '' requested''),
           Sleep 3])"

definition info_events :: "config \<Rightarrow> string \<Rightarrow> event list" where
  "info_events c msg =
     missing_key_events c ''debug'' @
     (if truthy (option_value c ''debug'') then [Log msg] else []) @ [Info msg]"

definition plymouth_events :: "machine \<Rightarrow> plymouth \<Rightarrow> string list \<Rightarrow> event list \<Rightarrow> event list" where
  "plymouth_events M sp cmd h =
     (if running sp
      then [Exec Quiet (''/bin/plymouth'' # cmd) (call_result M h (''/bin/plymouth'' # cmd))]
      else [])"

text \<open>\<^verbatim>\<open>self.fstab\<close> after the cache test of \<^verbatim>\<open>get_fstab_entry_with_mountpoint\<close>.\<close>

definition fstab_table :: "machine \<Rightarrow> config \<Rightarrow> event list \<Rightarrow> string list list" where
  "fstab_table M c h =
     (if fstab c = None \<or> fstab c = Some []
      then map split_ws
             (split_on nl
                (case file_content M h ''/etc/fstab'' of
                   None \<Rightarrow> []
                 | Some data \<Rightarrow> join [nl] (filter keep_line (split_on nl data))))
      else (case fstab c of Some tab \<Rightarrow> tab | None \<Rightarrow> []))"

definition root_entry :: "machine \<Rightarrow> config \<Rightarrow> event list \<Rightarrow> string list option" where
  "root_entry M c h =
     find (\<lambda>entry. entry \<noteq> [] \<and> length entry > 3 \<and> entry ! 1 = ''/'') (fstab_table M c h)"

text \<open>
  Devices for reasoning about a run up to its fsck call: a list of events, and a
  procedure, without an fsck call; and a property of what follows the first fsck call
  of a result, given how that call ended.
\<close>

definition quiet :: "event list \<Rightarrow> bool" where
  "quiet es = list_all (\<lambda>e. \<not> is_fsck e) es"

definition quiet_prog :: "'a prog \<Rightarrow> bool" where
  "quiet_prog m = (\<forall>h. quiet (events (m h)))"

definition fsck_post ::
  "(call_outcome \<Rightarrow> event list \<Rightarrow> bool \<Rightarrow> bool \<Rightarrow> bool) \<Rightarrow> 'a result \<Rightarrow> bool" where
  "fsck_post Q A =
     (\<forall>out. fsck_outcome (events A) = Some out \<longrightarrow>
        Q out (after_fsck (events A)) (is_Return A) (is_Hang A))"

text \<open>
  An example run: the built-in options, no splash, an fstab whose root entry asks for a
  check, and a machine on which fsck exits with a given status, \<^verbatim>\<open>reboot -f\<close> and
  \<^verbatim>\<open>sulogin\<close> never return and every other command succeeds.
\<close>

definition plain_config :: config where
  "plain_config = \<lparr>fstab = None, options = default_options, unknown_language = None\<rparr>"

definition no_splash :: plymouth where
  "no_splash = \<lparr>available = False, running = False\<rparr>"

definition fsck_machine :: "int \<Rightarrow> machine" where
  "fsck_machine status =
     \<lparr>call_result = (\<lambda>h cmd. if take 1 cmd = [''/sbin/fsck''] then Exited status
                             else if take 1 cmd = [''/sbin/reboot''] then NeverReturns
                             else if take 1 cmd = [''/sbin/sulogin''] then NeverReturns
                             else Exited 0),
      system_status = (\<lambda>h cmd. Some 0),
      oscall_error = (\<lambda>h c. None),
      file_content = (\<lambda>h p. if p = ''/etc/fstab''
                                then Some ''/dev/sda1 / ext4 defaults 0 1\<newline>''
                                else None),
      exists_path = (\<lambda>h p. False),
      is_file = (\<lambda>h p. False),
      is_dir = (\<lambda>h p. False)\<rparr>"

text \<open>
  Machines on which the collaborators misbehave: \<^verbatim>\<open>reboot -f\<close> fails and exits with
  status 1 after an fsck that exits with 2; the plymouth client never returns while
  the splash runs; in forced mode the sentinel file exists and its removal raises
  \<^verbatim>\<open>OSError\<close> after an fsck that exits with 3.
\<close>

definition reboot_exits_machine :: machine where
  "reboot_exits_machine =
     (fsck_machine 2)
       \<lparr>call_result := (\<lambda>h cmd. if take 1 cmd = [''/sbin/fsck''] then Exited 2
                               else if take 1 cmd = [''/sbin/reboot''] then Exited 1
                               else Exited 0)\<rparr>"

definition splash_on :: plymouth where
  "splash_on = \<lparr>available = True, running = True\<rparr>"

definition splash_hangs_machine :: "int \<Rightarrow> machine" where
  "splash_hangs_machine status =
     (fsck_machine status)
       \<lparr>call_result := (\<lambda>h cmd. if take 1 cmd = [''/sbin/fsck''] then Exited status
                               else if take 1 cmd = [''/bin/plymouth''] then NeverReturns
                               else Exited 0)\<rparr>"

definition forced_config :: config where
  "forced_config =
     \<lparr>fstab = None, options = default_options(''forcefsck'' \<mapsto> Bool True),
      unknown_language = None\<rparr>"

definition unlink_raises_machine :: machine where
  "unlink_raises_machine =
     (fsck_machine 3)
       \<lparr>oscall_error := (\<lambda>h c. if c = Unlink ''/forcefsck'' then Some OSError else None),
        exists_path := (\<lambda>h p. p = ''/forcefsck'')\<rparr>"

text \<open>The events other than the removal of the sentinel file.\<close>

definition without_unlink :: "event list \<Rightarrow> event list" where
  "without_unlink es = filter (\<lambda>e. e \<noteq> Os (Unlink ''/forcefsck'') None) es"

subsection \<open>Shutdown: unmounting and the remount ladder\<close>

text \<open>
  \<^verbatim>\<open>list.sort(key=k, reverse=True)\<close>: descending by key, elements with equal keys in
  their original order. Strings compare byte by byte, a proper prefix first.
\<close>

definition sort_reverse :: "('a \<Rightarrow> string) \<Rightarrow> 'a list \<Rightarrow> 'a list" where
  "sort_reverse k xs = rev (sort_key k (rev xs))"

text \<open>The filesystem types that \<^verbatim>\<open>get_fs_entries\<close> ignores (lines 1244-1245).\<close>

definition vfs :: "string list" where
  "vfs = [''proc'', ''devpts'', ''sysfs'', ''devtmpfs'', ''squashfs'',
          ''tmpfs'', ''rootfs'', ''debugfs'', ''cgroup'', ''configfs'']"

text \<open>
  \<^verbatim>\<open>get_fs_entries\<close> (lines 1240-1252) on the text that \<^verbatim>\<open>load_file("/proc/mounts")\<close>
  returned.
\<close>

definition fs_entry :: "string list \<Rightarrow> bool" where
  "fs_entry entry =
     (length entry > 2 \<and> entry ! 2 \<notin> set vfs \<and> entry ! 0 \<noteq> ''none'' \<and> entry ! 1 \<noteq> ''/'')"

definition fs_entries_of :: "string \<Rightarrow> string list list" where
  "fs_entries_of data =
     sort_reverse (\<lambda>x. x ! 1) (filter fs_entry (map split_ws (split_on nl data)))"

definition get_fs_entries :: "machine \<Rightarrow> string list list prog" where
  "get_fs_entries M = pbind (read_file M ''/proc/mounts'') (\<lambda>data. ret (fs_entries_of data))"

text \<open>
  The root entry that \<^verbatim>\<open>remount_ro\<close> looks for (lines 1256-1262): the first line of
  \<^verbatim>\<open>/proc/mounts\<close> with more than two fields, a device other than \<^verbatim>\<open>rootfs\<close> and the
  mountpoint \<^verbatim>\<open>/\<close>.
\<close>

definition find_rootfs :: "string \<Rightarrow> string list option" where
  "find_rootfs data =
     find (\<lambda>entry. length entry > 2 \<and> entry ! 0 \<noteq> ''rootfs'' \<and> entry ! 1 = ''/'')
       (map split_ws (split_on nl data))"

text \<open>
  \<^verbatim>\<open>remount_ro(force)\<close> (lines 1254-1274). Without a root entry \<^verbatim>\<open>rootfs\<close> is \<^verbatim>\<open>None\<close> and
  \<^verbatim>\<open>rootfs[1]\<close> raises \<^verbatim>\<open>TypeError\<close>, after the splash has been told. A non-zero status is
  followed by \<^verbatim>\<open>killall5 -9\<close>, inside this procedure.
\<close>

definition remount_ro :: "machine \<Rightarrow> plymouth \<Rightarrow> bool \<Rightarrow> int prog" where
  "remount_ro M sp force =
     pbind (read_file M ''/proc/mounts'')
       (\<lambda>data.
          pseq (SPLASH_update M sp ''remount_ro'')
            (pseq (SPLASH_quit M sp True)
               (case find_rootfs data of
                  None \<Rightarrow> raise TypeError
                | Some rootfs \<Rightarrow>
                    pbind
                      (if force then run_quiet M [''/bin/umount'', ''-n'', ''-r'', rootfs ! 1]
                       else run_quiet M [''/bin/mount'', ''-n'', ''-o'', ''remount,ro'', rootfs ! 1])
                      (\<lambda>status.
                         if status \<noteq> 0
                         then pseq (run_quiet M [''/sbin/killall5'', ''-9'']) (ret status)
                         else ret status))))"

text \<open>The ladder at the end of \<^verbatim>\<open>stop_system\<close> (lines 1300-1302).\<close>

definition remount_ladder :: "machine \<Rightarrow> plymouth \<Rightarrow> unit prog" where
  "remount_ladder M sp =
     pbind (remount_ro M sp False)
       (\<lambda>first.
          if first \<noteq> 0
          then pbind (remount_ro M sp False)
                 (\<lambda>second.
                    if second \<noteq> 0 then pseq (remount_ro M sp True) (ret ()) else ret ())
          else ret ())"

text \<open>The loop over the entries (lines 1289-1294).\<close>

fun unmount_filesystems :: "machine \<Rightarrow> string list list \<Rightarrow> unit prog" where
  "unmount_filesystems M [] = ret ()"
| "unmount_filesystems M (dev # devs) =
     pbind (run_quiet M [''/bin/umount'', dev ! 1])
       (\<lambda>status.
          pseq
            (if status \<noteq> 0
             then pseq (run_quiet M [''/bin/fuser'', ''-k'', ''-9'', ''-m'', dev ! 1])
                    (pseq (emit (Sleep 1))
                       (pseq (run_quiet M [''/bin/umount'', ''-f'', ''-r'', dev ! 1]) (ret ())))
             else ret ())
            (unmount_filesystems M devs))"

text \<open>
  The last block of \<^verbatim>\<open>stop_system\<close> (lines 1286-1302). The calls before it (services,
  D-Bus, udev, clock, swap, \<^verbatim>\<open>halt -w\<close>) are not embedded; their events are part of the
  events so far.
\<close>

definition stop_system_unmount :: "machine \<Rightarrow> plymouth \<Rightarrow> config \<Rightarrow> unit prog" where
  "stop_system_unmount M sp c =
     pbind (CONFIG_get c ''lxc_guest'')
       (\<lambda>guest.
          if guest \<noteq> Str ''yes''
          then pseq (SPLASH_update M sp ''unmount_filesystems'')
            (pseq (UI_info c ''Unmounting filesystems'')
               (pbind (get_fs_entries M)
                  (\<lambda>entries.
                     pseq (unmount_filesystems M entries)
                       (pseq (UI_info c ''Remounting remaining filesystems read-only'')
                          (pseq (os_call M (Copy ''/proc/mounts'' ''/etc/mtab''))
                             (remount_ladder M sp))))))
          else ret ())"

text \<open>Observing the ladder: the kill-all signals, the attempts and how they ended.\<close>

fun is_killall :: "event \<Rightarrow> bool" where
  "is_killall (Exec r cmd out) = (cmd = [''/sbin/killall5'', ''-9''])"
| "is_killall e = False"

fun is_remount_attempt :: "event \<Rightarrow> bool" where
  "is_remount_attempt (Exec r cmd out) =
     (cmd = [''/bin/mount'', ''-n'', ''-o'', ''remount,ro'', ''/''] \<or>
      cmd = [''/bin/umount'', ''-n'', ''-r'', ''/''])"
| "is_remount_attempt e = False"

definition attempt_outcomes :: "event list \<Rightarrow> call_outcome list" where
  "attempt_outcomes es =
     List.map_filter (\<lambda>e. if is_remount_attempt e then outcome_of e else None) es"

definition kill_signals :: "event list \<Rightarrow> nat" where
  "kill_signals es = length (filter is_killall es)"

fun failed :: "call_outcome \<Rightarrow> bool" where
  "failed (Exited n) = (n \<noteq> 0)"
| "failed out = False"

text \<open>Every kill-all signal of a run is matched by a failed attempt.\<close>

definition balanced :: "event list \<Rightarrow> bool" where
  "balanced es = (kill_signals es = length (filter failed (attempt_outcomes es)))"

text \<open>Observing the loop: the mountpoints of the plain \<^verbatim>\<open>umount\<close> attempts, in order.\<close>

fun umount_target :: "event \<Rightarrow> string option" where
  "umount_target (Exec r cmd out) =
     (case cmd of [c, m] \<Rightarrow> if c = ''/bin/umount'' then Some m else None | _ \<Rightarrow> None)"
| "umount_target e = None"

definition umount_targets :: "event list \<Rightarrow> string list" where
  "umount_targets es = List.map_filter umount_target es"

text \<open>A mountpoint lies below another one.\<close>

definition nested_in :: "string \<Rightarrow> string \<Rightarrow> bool" where
  "nested_in child parent = prefix (parent @ ''/'') child"

text \<open>
  Example machines for the shutdown: \<^verbatim>\<open>/proc/mounts\<close> with the root and three data
  mounts; remounting root read-only fails; the forced unmount of root succeeds on the
  first machine and fails on the second.
\<close>

definition mounts_example :: string where
  "mounts_example =
     ''rootfs / rootfs rw 0 0\<newline>/dev/sda1 / ext4 rw 0 0\<newline>proc /proc proc rw 0 0\<newline>/dev/sda2 /data ext4 rw 0 0\<newline>/dev/sda3 /data/nested ext4 rw 0 0\<newline>/dev/sdb1 /mnt ext4 rw 0 0\<newline>''"

definition ladder_machine :: "int \<Rightarrow> machine" where
  "ladder_machine forced_status =
     \<lparr>call_result = (\<lambda>h cmd. if cmd = [''/bin/mount'', ''-n'', ''-o'', ''remount,ro'', ''/'']
                             then Exited 32
                             else if cmd = [''/bin/umount'', ''-n'', ''-r'', ''/'']
                             then Exited forced_status
                             else Exited 0),
      system_status = (\<lambda>h cmd. Some 0),
      oscall_error = (\<lambda>h c. None),
      file_content = (\<lambda>h p. if p = ''/proc/mounts'' then Some mounts_example else None),
      exists_path = (\<lambda>h p. False),
      is_file = (\<lambda>h p. False),
      is_dir = (\<lambda>h p. False)\<rparr>"
section \<open>Facts about the string primitives\<close>

lemma split_on_nonempty: "split_on c s \<noteq> []"
  by (induction s) (auto split: list.splits)

lemma split_on_no_sep: "l \<in> set (split_on c s) \<Longrightarrow> c \<notin> set l"
proof (induction s arbitrary: l)
  case Nil
  then show ?case by simp
next
  case (Cons x xs)
  obtain w ws where ws: "split_on c xs = w # ws"
    using split_on_nonempty [of c xs] by (cases "split_on c xs") auto
  show ?case
  proof (cases "x = c")
    case True
    with Cons show ?thesis by auto
  next
    case False
    with Cons.prems ws have "l = x # w \<or> l \<in> set ws" by auto
    then show ?thesis
    proof
      assume "l = x # w"
      moreover have "c \<notin> set w" using Cons.IH [of w] ws by simp
      ultimately show ?thesis using False by auto
    next
      assume "l \<in> set ws"
      then show ?thesis using Cons.IH [of l] ws by simp
    qed
  qed
qed

lemma split_on_append_no_sep:
  "c \<notin> set x \<Longrightarrow> split_on c (x @ c # rest) = x # split_on c rest"
  by (induction x) auto

lemma split_on_id: "c \<notin> set x \<Longrightarrow> split_on c x = [x]"
  by (induction x) auto

lemma split_on_join:
  "ls \<noteq> [] \<Longrightarrow> (\<forall>l \<in> set ls. c \<notin> set l) \<Longrightarrow> split_on c (join [c] ls) = ls"
proof (induction ls)
  case Nil
  then show ?case by simp
next
  case (Cons x xs)
  show ?case
  proof (cases xs)
    case Nil
    with Cons.prems show ?thesis by (simp add: split_on_id)
  next
    case (Cons y ys)
    with Cons.IH Cons.prems show ?thesis by (simp add: split_on_append_no_sep)
  qed
qed

lemma load_file_Inr:
  "load_file fs path =
     Inr (case fs path of None \<Rightarrow> []
          | Some data \<Rightarrow> join [nl] (filter keep_line (split_on nl data)))"
  by (simp add: load_file_def open_read_def split: option.splits)

section \<open>Claims about load_file\<close>

text \<open>
  C10. \<^verbatim>\<open>load_file\<close> never raises: for every file system and path it returns a string.
  The string is empty when the file cannot be opened. Otherwise it is the kept lines of
  the content (the non-empty lines that do not start with \<^verbatim>\<open>#\<close>) joined by newlines, so
  that, unless no line is kept, splitting the result at newlines gives back exactly the
  kept lines in their order.
\<close>

theorem load_file_total:
  "(\<exists>s. load_file fs path = Inr s) \<and>
   (fs path = None \<longrightarrow> load_file fs path = Inr []) \<and>
   (\<forall>data. fs path = Some data \<longrightarrow>
      load_file fs path = Inr (join [nl] (filter keep_line (split_on nl data))) \<and>
      (filter keep_line (split_on nl data) \<noteq> [] \<longrightarrow>
         (\<forall>s. load_file fs path = Inr s \<longrightarrow>
            split_on nl s = filter keep_line (split_on nl data))))"
proof -
  have lines: "split_on nl (join [nl] (filter keep_line (split_on nl data))) =
      filter keep_line (split_on nl data)"
    if "filter keep_line (split_on nl data) \<noteq> []" for data
    using that by (intro split_on_join) (auto dest: split_on_no_sep)
  show ?thesis
    by (auto simp: load_file_Inr lines)
qed

theorem load_file_total_witness:
  "load_file fs_fstab ''/etc/fstab'' =
     Inr ''/dev/sda1 / ext4 defaults 0 1\<newline>proc /proc proc defaults 0 0'' \<and>
   split_on nl ''/dev/sda1 / ext4 defaults 0 1\<newline>proc /proc proc defaults 0 0'' =
     [''/dev/sda1 / ext4 defaults 0 1'', ''proc /proc proc defaults 0 0''] \<and>
   load_file fs_fstab ''/etc/mtab'' = Inr []"
  using load_file_total [of fs_fstab "''/etc/fstab''"] load_file_total [of fs_fstab "''/etc/mtab''"]
  by (simp add: fs_fstab_def keep_line_def startswith_def)

section \<open>Facts about the Config Resolver\<close>

lemma Config_init_merged:
  "Config_init env =
     (case merged_options env of
        Inl e \<Rightarrow> Inl e
      | Inr m \<Rightarrow> normalize_options \<lparr>fstab = None, options = m, unknown_language = None\<rparr>)"
  by (simp add: Config_init_def merged_options_def parse_kernel_options_def
      split: sum.splits)

lemma merged_options_eq:
  assumes "merged_options env = Inr m"
    and "config_file_options env = Inr conf"
    and "get_kernel_option (files env) ''mudur'' = Inr args"
  shows "m = apply_kernel_options args
           ((update_options default_options conf)
              (''forcefsck'' \<mapsto> Bool (path_exists env ''/forcefsck''),
               ''live'' \<mapsto> Bool (args ''thin'' \<noteq> None \<or> path_exists env ''/run/pisilinux/livemedia'')))"
  using assms by (simp add: merged_options_def merge_kernel_options_def)

lemma merged_precedence:
  assumes "merged_options env = Inr m"
    and "config_file_options env = Inr conf"
    and "get_kernel_option (files env) ''mudur'' = Inr args"
    and "k \<noteq> ''live''" and "k \<noteq> ''forcefsck''"
    and "\<not> is_substring k ''thin''"
  shows "m k = precedence args conf k"
  using assms(4-6) unfolding merged_options_eq [OF assms(1-3)]
  by (simp add: apply_kernel_options_def update_options_def precedence_def
      split: option.splits)


lemma merged_forcefsck:
  assumes "merged_options env = Inr m"
    and "config_file_options env = Inr conf"
    and "get_kernel_option (files env) ''mudur'' = Inr args"
    and "args ''forcefsck'' = None"
  shows "m ''forcefsck'' = Some (Bool (path_exists env ''/forcefsck''))"
  using assms(4) unfolding merged_options_eq [OF assms(1-3)]
  by (simp add: apply_kernel_options_def)

lemma normalize_other_keys:
  assumes "normalize_options c0 = Inr c"
    and "k \<noteq> ''language''" and "k \<noteq> ''keymap''"
  shows "options c k = options c0 k"
  using assms
  by (auto simp: normalize_options_def Let_def
      split: option.splits if_splits pyval.splits)

lemma normalize_language:
  assumes "normalize_options c0 = Inr c"
    and "options c0 ''language'' = Some v"
  shows "options c ''language'' = Some (if has_language v then v else Str ''en'')"
  using assms
  by (auto simp: normalize_options_def Let_def
      split: option.splits if_splits pyval.splits)

lemma normalize_keymap:
  assumes "normalize_options c0 = Inr c"
    and "options c0 ''keymap'' = Some km" and "\<not> truthy km"
  shows "\<exists>l la. options c ''language'' = Some (Str l) \<and> LANGUAGES l = Some la \<and>
           options c ''keymap'' = Some (Str (keymap la))"
  using assms
  by (auto simp: normalize_options_def Let_def
      split: option.splits if_splits pyval.splits)

lemma LANGUAGES_en: "LANGUAGES ''en'' = Some (Language ''us'' ''iso01.16'' ''8859-1'' ''en_US.UTF-8'')"
  by (simp add: LANGUAGES_def)

lemma get_kernel_option_succeeds: "\<exists>args. get_kernel_option fs option = Inr args"
  by (simp add: get_kernel_option_def open_read_def split: option.splits)

lemma merged_options_succeeds:
  assumes "config_file_options env = Inr conf"
  shows "\<exists>m. merged_options env = Inr m"
proof -
  obtain args where "get_kernel_option (files env) ''mudur'' = Inr args"
    using get_kernel_option_succeeds by blast
  with assms show ?thesis
    by (simp add: merged_options_def merge_kernel_options_def)
qed

lemma merged_defined:
  assumes "merged_options env = Inr m"
    and "default_options k \<noteq> None"
  shows "m k \<noteq> None"
proof -
  obtain conf where conf: "config_file_options env = Inr conf"
    using assms(1) by (cases "config_file_options env") (simp_all add: merged_options_def)
  obtain args where args: "get_kernel_option (files env) ''mudur'' = Inr args"
    using get_kernel_option_succeeds by blast
  show ?thesis
    using assms(2) unfolding merged_options_eq [OF assms(1) conf args]
    by (auto simp: apply_kernel_options_def update_options_def split: option.splits)
qed

lemma normalize_succeeds:
  assumes "options c0 ''language'' = Some v" and "options c0 ''keymap'' = Some km"
  shows "\<exists>c. normalize_options c0 = Inr c"
proof (cases "has_language v")
  case True
  then obtain s la where "v = Str s" "LANGUAGES s = Some la"
    by (cases v) auto
  with assms True show ?thesis
    by (simp add: normalize_options_def Let_def)
next
  case False
  with assms show ?thesis
    by (simp add: normalize_options_def Let_def LANGUAGES_en)
qed

lemma Config_init_succeeds:
  assumes "config_file_options env = Inr conf"
  shows "\<exists>c. Config_init env = Inr c"
proof -
  obtain m where m: "merged_options env = Inr m"
    using merged_options_succeeds [OF assms] by blast
  obtain v km where "m ''language'' = Some v" "m ''keymap'' = Some km"
    using merged_defined [OF m, of "''language''"] merged_defined [OF m, of "''keymap''"]
    by (auto simp: default_options_def)
  then show ?thesis
    using normalize_succeeds [of "\<lparr>fstab = None, options = m, unknown_language = None\<rparr>" v km] m
    by (simp add: Config_init_merged)
qed

lemmas config_eval = config_file_options_def load_config_def get_kernel_option_def
  open_read_def kernel_cmd_def kernel_arg_def config_line_def split_first_def strip_def
  strip_chars_def isspace_def is_quote1_def is_quote2_def startswith_def split_ws_def

section \<open>Claims about the Config Resolver\<close>




text \<open>
  C7, as stated, fails: the kernel command line \<^verbatim>\<open>mudur=forcefsck\<close> makes the resolved
  \<^verbatim>\<open>forcefsck\<close> true on a machine without the sentinel file, because the fragments are
  applied after the sentinel test.
\<close>

theorem forcefsck_sentinel_counterexample:
  "resolved env_forcefsck_cmdline ''forcefsck'' = Some (Bool True) \<and>
   \<not> path_exists env_forcefsck_cmdline ''/forcefsck''"
  by (simp add: resolved_def env_forcefsck_cmdline_def Config_init_def
      parse_kernel_options_def merge_kernel_options_def normalize_options_def
      apply_kernel_options_def update_options_def default_options_def
      LANGUAGES_def Language_def Let_def config_eval)

text \<open>
  C7, amended. When the kernel command line carries no \<^verbatim>\<open>forcefsck\<close> fragment, the resolved
  \<^verbatim>\<open>forcefsck\<close> is the boolean "the sentinel file \<^verbatim>\<open>/forcefsck\<close> exists", whatever the config
  file says; so it is true if and only if the sentinel exists.
\<close>

theorem forcefsck_sentinel:
  assumes "Config_init env = Inr c"
    and "get_kernel_option (files env) ''mudur'' = Inr args"
    and "args ''forcefsck'' = None"
  shows "options c ''forcefsck'' = Some (Bool (path_exists env ''/forcefsck'')) \<and>
         (\<forall>v. options c ''forcefsck'' = Some v \<longrightarrow>
            (truthy v \<longleftrightarrow> path_exists env ''/forcefsck''))"
proof -
  obtain m where m: "merged_options env = Inr m"
    using assms(1) by (cases "merged_options env") (simp_all add: Config_init_merged)
  obtain conf where conf: "config_file_options env = Inr conf"
    using m by (cases "config_file_options env") (simp_all add: merged_options_def)
  from assms(1) m
  have norm: "normalize_options \<lparr>fstab = None, options = m, unknown_language = None\<rparr> = Inr c"
    by (simp add: Config_init_merged)
  have "options c ''forcefsck'' = m ''forcefsck''"
    using normalize_other_keys [OF norm, of "''forcefsck''"] by simp
  also have "\<dots> = Some (Bool (path_exists env ''/forcefsck''))"
    by (rule merged_forcefsck [OF m conf assms(2,3)])
  finally show ?thesis by simp
qed

theorem forcefsck_sentinel_witness:
  "path_exists env_language_xx ''/forcefsck'' \<and>
   resolved env_language_xx ''forcefsck'' = Some (Bool True)"
proof -
  obtain conf where conf: "config_file_options env_language_xx = Inr conf"
    by (simp add: config_file_options_def load_config_def open_read_def env_language_xx_def)
  obtain args where args: "get_kernel_option (files env_language_xx) ''mudur'' = Inr args"
    using get_kernel_option_succeeds by blast
  obtain c where c: "Config_init env_language_xx = Inr c"
    using Config_init_succeeds [OF conf] by blast
  have none: "args ''forcefsck'' = None"
    using args by (auto simp: config_eval env_language_xx_def)
  show ?thesis
    using forcefsck_sentinel [OF c args none] c
    by (simp add: resolved_def env_language_xx_def)
qed

text \<open>
  C9. When the configured language (the value the precedence rule gives for
  \<^verbatim>\<open>language\<close>) is not a key of \<^verbatim>\<open>LANGUAGES\<close>, the resolved language is \<^verbatim>\<open>"en"\<close>. When
  neither the config file nor the kernel command line gives a keymap, the resolved
  keymap is the keymap of the table entry of the resolved language. Together: for an
  unsupported language and no configured keymap, the keymap is \<^verbatim>\<open>"us"\<close>.
\<close>

theorem language_fallback:
  assumes "Config_init env = Inr c"
    and "config_file_options env = Inr conf"
    and "get_kernel_option (files env) ''mudur'' = Inr args"
  shows "(\<forall>v. precedence args conf ''language'' = Some v \<longrightarrow> \<not> has_language v \<longrightarrow>
            options c ''language'' = Some (Str ''en'')) \<and>
         (conf ''keymap'' = None \<longrightarrow> args ''keymap'' = None \<longrightarrow>
            (\<exists>l la. options c ''language'' = Some (Str l) \<and> LANGUAGES l = Some la \<and>
               options c ''keymap'' = Some (Str (keymap la)))) \<and>
         (\<forall>v. precedence args conf ''language'' = Some v \<longrightarrow> \<not> has_language v \<longrightarrow>
            conf ''keymap'' = None \<longrightarrow> args ''keymap'' = None \<longrightarrow>
            options c ''keymap'' = Some (Str ''us''))"
proof -
  obtain m where m: "merged_options env = Inr m"
    using assms(1) by (cases "merged_options env") (simp_all add: Config_init_merged)
  from assms(1) m
  have norm: "normalize_options \<lparr>fstab = None, options = m, unknown_language = None\<rparr> = Inr c"
    by (simp add: Config_init_merged)
  have sub: "\<not> is_substring ''language'' ''thin''" "\<not> is_substring ''keymap'' ''thin''"
    by (simp_all add: startswith_def)
  have lang: "m ''language'' = precedence args conf ''language''"
    by (rule merged_precedence [OF m assms(2,3) _ _ sub(1)]) simp_all
  have km: "m ''keymap'' = precedence args conf ''keymap''"
    by (rule merged_precedence [OF m assms(2,3) _ _ sub(2)]) simp_all
  have en: "options c ''language'' = Some (Str ''en'')"
    if "precedence args conf ''language'' = Some v" "\<not> has_language v" for v
    using normalize_language [OF norm, of v] that lang by simp
  have table: "\<exists>l la. options c ''language'' = Some (Str l) \<and> LANGUAGES l = Some la \<and>
      options c ''keymap'' = Some (Str (keymap la))"
    if "conf ''keymap'' = None" "args ''keymap'' = None"
  proof -
    have "m ''keymap'' = Some NoneV"
      using that km by (simp add: precedence_def default_options_def)
    then show ?thesis
      using normalize_keymap [OF norm, of NoneV] by simp
  qed
  have us: "options c ''keymap'' = Some (Str ''us'')"
    if "precedence args conf ''language'' = Some v" "\<not> has_language v"
      "conf ''keymap'' = None" "args ''keymap'' = None" for v
    using en [OF that(1,2)] table [OF that(3,4)]
    by (auto simp: LANGUAGES_en Language_def)
  show ?thesis
    using en table us by (intro conjI allI impI)
qed

theorem language_fallback_witness:
  "resolved env_language_xx ''language'' = Some (Str ''en'') \<and>
   resolved env_language_xx ''keymap'' = Some (Str ''us'')"
proof -
  obtain conf where conf: "config_file_options env_language_xx = Inr conf"
    by (simp add: config_file_options_def load_config_def open_read_def env_language_xx_def)
  obtain args where args: "get_kernel_option (files env_language_xx) ''mudur'' = Inr args"
    using get_kernel_option_succeeds by blast
  obtain c where c: "Config_init env_language_xx = Inr c"
    using Config_init_succeeds [OF conf] by blast
  have conf_eq: "conf ''keymap'' = None"
    using conf by (auto simp: config_eval env_language_xx_def)
  have args_eq: "args ''keymap'' = None" "args ''language'' = Some ''xx''"
    using args by (auto simp: config_eval env_language_xx_def)
  have xx: "precedence args conf ''language'' = Some (Str ''xx'')" "\<not> has_language (Str ''xx'')"
    using args_eq by (simp_all add: precedence_def LANGUAGES_def)
  show ?thesis
    using language_fallback [OF c conf args] c conf_eq args_eq xx
    by (simp add: resolved_def)
qed

section \<open>Facts about sequencing\<close>

lemma events_after: "events (after es r) = es @ events r"
  by (cases r) simp_all

lemma events_pbind:
  "events (pbind m f h) =
     (case m h of Return a es \<Rightarrow> es @ events (f a (h @ es)) | r \<Rightarrow> events r)"
  by (simp add: pbind_def events_after split: result.splits)

lemma events_pseq:
  "events (pseq m n h) =
     (case m h of Return a es \<Rightarrow> es @ events (n (h @ es)) | r \<Rightarrow> events r)"
  by (simp add: pseq_def events_pbind)

lemma after_Nil: "after [] r = r"
  by (cases r) simp_all

lemma after_after: "after es (after es' r) = after (es @ es') r"
  by (cases r) simp_all

section \<open>Facts about the Cgroup Bootstrap\<close>

lemma not_mount_mountpoint: "\<not> is_controller_mount (System (''mountpoint -q '' @ p) st)"
  by (simp add: startswith_def)

lemma is_mount_mount_command: "is_controller_mount (System (mount_command s) st)"
  by (simp add: startswith_def mount_command_def)

lemma Controller_mount_disabled: "enabled c \<noteq> 1 \<Longrightarrow> Controller_mount M c h = Return None []"
  by (simp add: Controller_mount_def ret_def)

text \<open>The events of one \<^verbatim>\<open>Controller.mount\<close> call, case by case.\<close>

lemma Controller_mount_events:
  "events (Controller_mount M c h) =
     (if enabled c \<noteq> 1 then []
      else case oscall_error M h (Chdir ''/sys/fs/cgroup'') of
             Some e \<Rightarrow> [Os (Chdir ''/sys/fs/cgroup'') (Some e)]
           | None \<Rightarrow>
               (let h1 = h @ [Os (Chdir ''/sys/fs/cgroup'') None];
                    q = ''mountpoint -q '' @ subsysname c
                in case system_status M h1 q of
                     None \<Rightarrow> [Os (Chdir ''/sys/fs/cgroup'') None, System q None]
                   | Some n \<Rightarrow>
                       if n = 0 then [Os (Chdir ''/sys/fs/cgroup'') None, System q (Some 0)]
                       else [Os (Chdir ''/sys/fs/cgroup'') None, System q (Some n),
                             System (mount_command (subsysname c))
                               (system_status M (h1 @ [System q (Some n)])
                                  (mount_command (subsysname c)))]))"
  by (simp add: Controller_mount_def pseq_def pbind_def os_call_def mountpoint_def
      os_system_def ret_def Let_def split: option.splits)

lemma Controller_mount_filter:
  "filter is_controller_mount (events (Controller_mount M c h)) =
     (if enabled c = 1 \<and> oscall_error M h (Chdir ''/sys/fs/cgroup'') = None \<and>
         (\<exists>n. system_status M (h @ [Os (Chdir ''/sys/fs/cgroup'') None])
                (''mountpoint -q '' @ subsysname c) = Some n \<and> n \<noteq> 0)
      then [System (mount_command (subsysname c))
              (system_status M
                 (h @ [Os (Chdir ''/sys/fs/cgroup'') None,
                       System (''mountpoint -q '' @ subsysname c)
                         (system_status M (h @ [Os (Chdir ''/sys/fs/cgroup'') None])
                            (''mountpoint -q '' @ subsysname c))])
                 (mount_command (subsysname c)))]
      else [])"
  using not_mount_mountpoint is_mount_mount_command
  by (simp add: Controller_mount_events Let_def split: option.splits)

lemma mount_controllers_events:
  "events (mount_controllers M (c # cs) h) =
     (case Controller_mount M c h of
        Return a es \<Rightarrow> es @ events (mount_controllers M cs (h @ es))
      | r \<Rightarrow> events r)"
  by (simp add: events_pseq)

lemma mount_controllers_mounted:
  assumes "\<forall>c \<in> set cs. enabled c = 1 \<longrightarrow>
             (\<forall>h'. system_status M h' (''mountpoint -q '' @ subsysname c) = Some 0)"
  shows "filter is_controller_mount (events (mount_controllers M cs h)) = []"
  using assms
proof (induction cs arbitrary: h)
  case Nil
  then show ?case by (simp add: ret_def)
next
  case (Cons c cs)
  have one: "filter is_controller_mount (events (Controller_mount M c h)) = []"
    using Cons.prems by (simp add: Controller_mount_filter)
  show ?case
  proof (cases "Controller_mount M c h")
    case (Return a es)
    with one have "filter is_controller_mount es = []" by simp
    moreover have "filter is_controller_mount (events (mount_controllers M cs (h @ es))) = []"
      using Cons.IH Cons.prems by simp
    ultimately show ?thesis
      using Return by (simp add: events_pseq)
  qed (use one in \<open>simp_all add: events_pseq\<close>)
qed

lemma mount_controllers_enabled_only:
  assumes "e \<in> set (events (mount_controllers M cs h))" and "is_controller_mount e"
  shows "\<exists>c \<in> set cs. \<exists>st. enabled c = 1 \<and> e = System (mount_command (subsysname c)) st"
  using assms
proof (induction cs arbitrary: h)
  case Nil
  then show ?case by (simp add: ret_def)
next
  case (Cons c cs)
  have one: "\<exists>st. enabled c = 1 \<and> e = System (mount_command (subsysname c)) st"
    if "e \<in> set (events (Controller_mount M c h))"
  proof -
    from that Cons.prems(2)
    have "e \<in> set (filter is_controller_mount (events (Controller_mount M c h)))" by simp
    then show ?thesis
      by (simp add: Controller_mount_filter split: if_splits)
  qed
  show ?case
  proof (cases "Controller_mount M c h")
    case (Return a es)
    with Cons.prems(1)
    have "e \<in> set es \<or> e \<in> set (events (mount_controllers M cs (h @ es)))"
      by (simp add: events_pseq)
    then show ?thesis
    proof
      assume "e \<in> set es"
      with Return one show ?thesis by simp
    next
      assume "e \<in> set (events (mount_controllers M cs (h @ es)))"
      from Cons.IH [OF this Cons.prems(2)] show ?thesis by auto
    qed
  qed (use Cons.prems(1) one in \<open>simp_all add: events_pseq\<close>)
qed

text \<open>The exit for a cgroup line in the fstab is unreachable, whatever the machine.\<close>

lemma exits_with_after [simp]: "exits_with (after es r) k = exits_with r k"
  by (cases r) simp_all

lemma no_exit_pbind:
  assumes "\<not> exits_with (m h) k"
    and "\<And>a es. m h = Return a es \<Longrightarrow> \<not> exits_with (f a (h @ es)) k"
  shows "\<not> exits_with (pbind m f h) k"
  using assms by (cases "m h") (simp_all add: pbind_def)

lemma no_exit_os_system [simp]: "\<not> exits_with (os_system M cmd h) k"
  by (simp add: os_system_def split: option.splits)

lemma no_exit_os_call [simp]: "\<not> exits_with (os_call M c h) k"
  by (simp add: os_call_def split: option.splits)

lemma no_exit_ret [simp]: "\<not> exits_with (ret a h) k"
  by (simp add: ret_def)

lemma no_exit_mountpoint [simp]: "\<not> exits_with (mountpoint M p h) k"
  unfolding mountpoint_def by (rule no_exit_pbind) simp_all

lemma no_exit_if:
  "(b \<Longrightarrow> \<not> exits_with (m h) k) \<Longrightarrow> (\<not> b \<Longrightarrow> \<not> exits_with (n h) k) \<Longrightarrow>
   \<not> exits_with ((if b then m else n) h) k"
  by simp

lemma no_exit_Controller_mount [simp]: "\<not> exits_with (Controller_mount M c h) k"
  unfolding Controller_mount_def pseq_def
  apply (rule no_exit_if)
   apply (rule no_exit_pbind, simp)
   apply (rule no_exit_pbind, simp)
   apply (rule no_exit_if)
    apply (rule no_exit_pbind, simp)
    apply simp
   apply simp
  apply simp
  done

lemma no_exit_mount_controllers [simp]: "\<not> exits_with (mount_controllers M cs h) k"
proof (induction cs arbitrary: h)
  case Nil
  show ?case by simp
next
  case (Cons c cs)
  show ?case
    unfolding mount_controllers.simps pseq_def
    by (rule no_exit_pbind) (simp_all add: Cons.IH)
qed

lemma no_exit_mount_cgroup [simp]: "\<not> exits_with (mount_cgroup M h) k"
  unfolding mount_cgroup_def
  apply (rule no_exit_pbind, simp)
  apply (rule no_exit_if)
   apply (rule no_exit_pbind, simp)
   apply simp
  apply simp
  done

lemma no_exit_find_controllers [simp]: "\<not> exits_with (find_controllers M h) k"
  by (simp add: find_controllers_def split: sum.splits)

lemma no_exit_isfile [simp]: "\<not> exits_with (isfile M p h) k"
  by (simp add: isfile_def)

lemma no_exit_isdir [simp]: "\<not> exits_with (isdir M p h) k"
  by (simp add: isdir_def)

lemma no_exit_emit [simp]: "\<not> exits_with (emit e h) k"
  by (simp add: emit_def)

lemma Cgroupfs_init_never_exits_for_fstab: "\<not> exits_with (Cgroupfs_init M h) (-1)"
  unfolding Cgroupfs_init_def pseq_def kernel_support_def check_sysfs_def
  apply (simp only: equals_True.simps if_False)
  apply (rule no_exit_pbind, simp)
  apply (rule no_exit_if)
   apply (rule no_exit_pbind, simp)
   apply (simp add: sys_exit_def)
  apply (rule no_exit_pbind, simp)
  apply (rule no_exit_if)
   apply (rule no_exit_pbind, simp)
   apply (simp add: sys_exit_def)
  apply (rule no_exit_pbind, simp)
  apply (rule no_exit_pbind, simp)
  apply simp
  done

lemmas cgroup_eval = Cgroupfs_init_def check_fstab_def check_fstab_line_def int_truthy_def
  kernel_support_def check_sysfs_def mount_cgroup_def find_controllers_def
  controller_line_def Controller_mount_def mountpoint_def mount_command_def Controller_def
  parse_int_def digits_value_def is_digit_def strip_def strip_chars_def isspace_def
  split_ws_def startswith_def open_read_def pbind_def pseq_def ret_def emit_def
  sys_exit_def os_system_def os_call_def isfile_def isdir_def cgroup_machine_def Let_def

section \<open>Claims about the Cgroup Bootstrap\<close>

text \<open>
  C5. The claim is what the code sets out to do, but the guard never fires: on a
  machine whose fstab has a cgroup line (and where \<^verbatim>\<open>check_fstab\<close>, if it were called,
  would answer \<^verbatim>\<open>True\<close>), \<^verbatim>\<open>Cgroupfs.__init__\<close> does not exit; it goes on to query the
  cgroup root and to mount the enabled controller.
\<close>

theorem cgroupfs_fstab_guard_skipped:
  "check_fstab cgroup_machine [] = Return True [] \<and>
   Cgroupfs_init cgroup_machine [] =
     Return ()
       [System ''mountpoint -q /sys/fs/cgroup'' (Some 0),
        Os (Chdir ''/sys/fs/cgroup'') None,
        System ''mountpoint -q cpu'' (Some 256),
        System ''mkdir -p cpu; mount -n -t cgroup -o cpu cgroup cpu'' (Some 0)]"
  by (simp add: cgroup_eval)

text \<open>
  C8. \<^verbatim>\<open>Controller.mount\<close> does nothing at all for a controller whose \<^verbatim>\<open>enabled\<close> is not 1.
  It issues the mount command exactly when \<^verbatim>\<open>enabled\<close> is 1 and the \<^verbatim>\<open>mountpoint\<close> query for
  its directory answers with a non-zero status. Hence the loop over the controllers
  issues no mount command on a hierarchy where the directory of every enabled
  controller is a mountpoint, and on any machine every mount command of the loop is
  for a controller with \<^verbatim>\<open>enabled\<close> 1.
\<close>

theorem controller_mount_idempotent:
  "(enabled c \<noteq> 1 \<longrightarrow> Controller_mount M c h = Return None []) \<and>
   (list_ex is_controller_mount (events (Controller_mount M c h)) \<longleftrightarrow>
      enabled c = 1 \<and> oscall_error M h (Chdir ''/sys/fs/cgroup'') = None \<and>
      (\<exists>n. system_status M (h @ [Os (Chdir ''/sys/fs/cgroup'') None])
             (''mountpoint -q '' @ subsysname c) = Some n \<and> n \<noteq> 0)) \<and>
   ((\<forall>c \<in> set cs. enabled c = 1 \<longrightarrow>
        (\<forall>h'. system_status M h' (''mountpoint -q '' @ subsysname c) = Some 0)) \<longrightarrow>
      filter is_controller_mount (events (mount_controllers M cs h)) = []) \<and>
   (\<forall>e \<in> set (events (mount_controllers M cs h)). is_controller_mount e \<longrightarrow>
      (\<exists>c \<in> set cs. \<exists>st. enabled c = 1 \<and> e = System (mount_command (subsysname c)) st))"
proof (intro conjI impI ballI)
  assume "enabled c \<noteq> 1"
  then show "Controller_mount M c h = Return None []"
    by (rule Controller_mount_disabled)
next
  have "list_ex is_controller_mount (events (Controller_mount M c h)) \<longleftrightarrow>
      filter is_controller_mount (events (Controller_mount M c h)) \<noteq> []"
    by (simp add: list_ex_iff filter_empty_conv)
  then show "list_ex is_controller_mount (events (Controller_mount M c h)) \<longleftrightarrow>
      enabled c = 1 \<and> oscall_error M h (Chdir ''/sys/fs/cgroup'') = None \<and>
      (\<exists>n. system_status M (h @ [Os (Chdir ''/sys/fs/cgroup'') None])
             (''mountpoint -q '' @ subsysname c) = Some n \<and> n \<noteq> 0)"
    by (simp only: Controller_mount_filter) simp
next
  assume "\<forall>c \<in> set cs. enabled c = 1 \<longrightarrow>
        (\<forall>h'. system_status M h' (''mountpoint -q '' @ subsysname c) = Some 0)"
  then show "filter is_controller_mount (events (mount_controllers M cs h)) = []"
    by (rule mount_controllers_mounted)
next
  fix e
  assume "e \<in> set (events (mount_controllers M cs h))" "is_controller_mount e"
  then show "\<exists>c \<in> set cs. \<exists>st. enabled c = 1 \<and> e = System (mount_command (subsysname c)) st"
    by (rule mount_controllers_enabled_only)
qed

theorem controller_mount_idempotent_witness:
  "filter is_controller_mount
     (events (mount_controllers mounted_machine
                [Controller ''cpu'' 0 1 1, Controller ''memory'' 0 1 0] [])) = [] \<and>
   Controller_mount mounted_machine (Controller ''memory'' 0 1 0) [] = Return None []"
  using controller_mount_idempotent
    [of "Controller ''memory'' 0 1 0" mounted_machine "[]"
      "[Controller ''cpu'' 0 1 1, Controller ''memory'' 0 1 0]"]
  by (simp add: Controller_def mounted_machine_def)

section \<open>Facts about the stage procedures\<close>

lemma pbind_bind_result: "pbind m f h = bind_result (m h) f h"
  by (simp add: pbind_def bind_result_def)

lemma bind_result_after: "bind_result (after es r) f h = after es (bind_result r f (h @ es))"
  by (cases r) (simp_all add: bind_result_def after_after)

lemma pbind_assoc: "pbind (pbind m f) g = pbind m (\<lambda>x. pbind (f x) g)"
proof
  fix h
  show "pbind (pbind m f) g h = pbind m (\<lambda>x. pbind (f x) g) h"
  proof (cases "m h")
    case (Return a es)
    have "pbind (pbind m f) g h = bind_result (after es (f a (h @ es))) g h"
      using Return by (simp add: pbind_def bind_result_def)
    also have "\<dots> = after es (bind_result (f a (h @ es)) g (h @ es))"
      by (rule bind_result_after)
    also have "\<dots> = pbind m (\<lambda>x. pbind (f x) g) h"
      using Return by (simp add: pbind_def bind_result_def)
    finally show ?thesis .
  qed (simp_all add: pbind_def)
qed

lemma pseq_assoc: "pseq (pseq m n) k = pseq m (pseq n k)"
  by (simp add: pseq_def pbind_assoc)

lemma pbind_pseq: "pbind (pseq m n) f = pseq m (pbind n f)"
  by (simp add: pseq_def pbind_assoc)

lemma pseq_pbind: "pseq (pbind m f) n = pbind m (\<lambda>x. pseq (f x) n)"
  by (simp add: pseq_def pbind_assoc)

lemma pbind_ret: "pbind (ret a) f h = f a h"
  by (simp add: pbind_def ret_def after_Nil)

lemma pseq_ret: "pseq (ret a) n h = n h"
  by (simp add: pseq_def pbind_ret)

lemma pbind_emit: "pbind (emit e) f h = after [e] (f () (h @ [e]))"
  by (simp add: pbind_def emit_def)

lemma pseq_emit: "pseq (emit e) n h = after [e] (n (h @ [e]))"
  by (simp add: pseq_def pbind_emit)

lemma pbind_if: "pbind (if b then m else n) f = (if b then pbind m f else pbind n f)"
  by simp

lemma pseq_if: "pseq (if b then m else n) k = (if b then pseq m k else pseq n k)"
  by simp

lemma pbind_call:
  "pbind (call M r cmd) f h =
     (case call_result M h cmd of
        Exited n \<Rightarrow> after [Exec r cmd (Exited n)] (f n (h @ [Exec r cmd (Exited n)]))
      | NeverReturns \<Rightarrow> Hang [Exec r cmd NeverReturns]
      | NotStarted \<Rightarrow> Raise OSError [Exec r cmd NotStarted])"
  by (simp add: pbind_def call_def split: call_outcome.splits)

lemma pseq_call:
  "pseq (call M r cmd) k h =
     (case call_result M h cmd of
        Exited n \<Rightarrow> after [Exec r cmd (Exited n)] (k (h @ [Exec r cmd (Exited n)]))
      | NeverReturns \<Rightarrow> Hang [Exec r cmd NeverReturns]
      | NotStarted \<Rightarrow> Raise OSError [Exec r cmd NotStarted])"
  by (simp add: pseq_def pbind_call)

lemma CONFIG_get_eq: "CONFIG_get c key h = Return (option_value c key) (missing_key_events c key)"
  by (simp add: CONFIG_get_def option_value_def missing_key_events_def ret_def pseq_emit
      split: option.splits)

lemma pbind_CONFIG_get:
  "pbind (CONFIG_get c key) f h =
     after (missing_key_events c key) (f (option_value c key) (h @ missing_key_events c key))"
  by (simp add: pbind_def CONFIG_get_eq)

lemma UI_info_eq: "UI_info c msg h = Return () (info_events c msg)"
  by (simp add: UI_info_def pbind_CONFIG_get info_events_def pseq_emit pseq_ret emit_def)

lemma pseq_UI_info:
  "pseq (UI_info c msg) n h = after (info_events c msg) (n (h @ info_events c msg))"
  by (simp add: pseq_def pbind_def UI_info_eq)

lemma pseq_UI_warn:
  "pseq (UI_warn msg) n h = after [Log msg, Warn msg] (n (h @ [Log msg, Warn msg]))"
  by (simp add: UI_warn_def pseq_assoc pseq_emit after_after)

lemma send_cmd_eq:
  assumes "running sp \<longrightarrow> plymouth_returns M"
  shows "send_cmd M sp cmd h = Return () (plymouth_events M sp cmd h)"
proof (cases "running sp")
  case True
  with assms obtain n where "call_result M h (''/bin/plymouth'' # cmd) = Exited n"
    unfolding plymouth_returns_def by blast
  with True show ?thesis
    by (simp add: send_cmd_def run_quiet_def pbind_call plymouth_events_def ret_def)
next
  case False
  then show ?thesis by (simp add: send_cmd_def plymouth_events_def ret_def)
qed

lemma pseq_send_cmd:
  assumes "running sp \<longrightarrow> plymouth_returns M"
  shows "pseq (send_cmd M sp cmd) n h =
     after (plymouth_events M sp cmd h) (n (h @ plymouth_events M sp cmd h))"
  by (simp add: pseq_def pbind_def send_cmd_eq [OF assms])

lemma bell_loop_step:
  "i < 4 \<Longrightarrow>
   bell_loop i = pseq (emit (Print [CHR 0x07])) (pseq (emit (Sleep 1)) (bell_loop (i + 1)))"
  by (subst bell_loop.simps) simp

lemma bell_loop_stop: "\<not> i < 4 \<Longrightarrow> bell_loop i = ret ()"
  by (subst bell_loop.simps) simp

lemma bell_loop_eq:
  "bell_loop 0 h =
     Return () [Print [CHR 0x07], Sleep 1, Print [CHR 0x07], Sleep 1,
                Print [CHR 0x07], Sleep 1, Print [CHR 0x07], Sleep 1]"
  by (simp add: bell_loop_step bell_loop_stop pseq_emit ret_def)

lemma read_file_eq:
  "read_file M path h =
     Return (case file_content M h path of None \<Rightarrow> []
             | Some data \<Rightarrow> join [nl] (filter keep_line (split_on nl data))) []"
  by (simp add: read_file_def load_file_Inr)

lemma get_fstab_entry_eq:
  "get_fstab_entry_with_mountpoint M c ''/'' h =
     Return (root_entry M c h, c\<lparr>fstab := Some (fstab_table M c h)\<rparr>) []"
  by (simp add: get_fstab_entry_with_mountpoint_def fstab_entries_def pbind_def read_file_eq
      ret_def root_entry_def fstab_table_def)

lemma pbind_get_fstab_entry:
  "pbind (get_fstab_entry_with_mountpoint M c ''/'') f h =
     f (root_entry M c h, c\<lparr>fstab := Some (fstab_table M c h)\<rparr>) h"
  by (simp add: pbind_def get_fstab_entry_eq after_Nil)

lemma option_value_fstab [simp]: "option_value (c\<lparr>fstab := x\<rparr>) k = option_value c k"
  by (simp add: option_value_def)

lemma missing_key_events_fstab [simp]:
  "missing_key_events (c\<lparr>fstab := x\<rparr>) k = missing_key_events c k"
  by (simp add: missing_key_events_def)

lemma info_events_fstab [simp]: "info_events (c\<lparr>fstab := x\<rparr>) msg = info_events c msg"
  by (simp add: info_events_def)

lemma pbind_UI_info:
  "pbind (UI_info c msg) f h = after (info_events c msg) (f () (h @ info_events c msg))"
  by (simp add: pbind_def UI_info_eq)

lemma pbind_UI_warn:
  "pbind (UI_warn msg) f h = after [Log msg, Warn msg] (f () (h @ [Log msg, Warn msg]))"
  by (simp add: UI_warn_def pseq_def pbind_assoc pbind_emit after_after)

lemma pbind_send_cmd:
  assumes "running sp \<longrightarrow> plymouth_returns M"
  shows "pbind (send_cmd M sp cmd) f h =
     after (plymouth_events M sp cmd h) (f () (h @ plymouth_events M sp cmd h))"
  by (simp add: pbind_def send_cmd_eq [OF assms])

lemma pbind_bell_loop:
  "pbind (bell_loop 0) f h =
     after [Print [CHR 0x07], Sleep 1, Print [CHR 0x07], Sleep 1,
            Print [CHR 0x07], Sleep 1, Print [CHR 0x07], Sleep 1]
       (f () (h @ [Print [CHR 0x07], Sleep 1, Print [CHR 0x07], Sleep 1,
                   Print [CHR 0x07], Sleep 1, Print [CHR 0x07], Sleep 1]))"
  by (simp add: pbind_def bell_loop_eq)

lemma pbind_path_exists_now:
  "pbind (path_exists_now M p) f h = f (exists_path M h p) h"
  by (simp add: pbind_def path_exists_now_def after_Nil)

lemma pbind_os_call:
  "pbind (os_call M c) f h =
     (case oscall_error M h c of
        None \<Rightarrow> after [Os c None] (f () (h @ [Os c None]))
      | Some e \<Rightarrow> Raise e [Os c (Some e)])"
  by (simp add: pbind_def os_call_def split: option.splits)

lemmas prog_nf = pseq_def pbind_assoc pbind_ret pbind_emit pbind_call pbind_CONFIG_get
  pbind_UI_info pbind_UI_warn pbind_bell_loop pbind_get_fstab_entry pbind_path_exists_now
  pbind_os_call run_def run_full_def run_quiet_def after_after
  SPLASH_hide_splash_def SPLASH_report_error_def SPLASH_update_def UI_error_def

text \<open>Observers pushed through.\<close>

lemma fsck_outcome_Nil [simp]: "fsck_outcome [] = None"
  by (simp add: fsck_outcome_def)

lemma fsck_outcome_Cons [simp]:
  "fsck_outcome (e # es) = (if is_fsck e then outcome_of e else fsck_outcome es)"
  by (simp add: fsck_outcome_def)

lemma fsck_outcome_append:
  "list_all (\<lambda>e. \<not> is_fsck e) es \<Longrightarrow> fsck_outcome (es @ rest) = fsck_outcome rest"
  by (induction es) simp_all

lemma after_fsck_Nil [simp]: "after_fsck [] = []"
  by (simp add: after_fsck_def)

lemma after_fsck_Cons [simp]:
  "after_fsck (e # es) = (if is_fsck e then es else after_fsck es)"
  by (simp add: after_fsck_def)

lemma after_fsck_append:
  "list_all (\<lambda>e. \<not> is_fsck e) es \<Longrightarrow> after_fsck (es @ rest) = after_fsck rest"
  by (induction es) simp_all

lemma quiet_missing_key [simp]: "list_all (\<lambda>e. \<not> is_fsck e) (missing_key_events c k)"
  by (simp add: missing_key_events_def split: option.splits)

lemma quiet_info [simp]: "list_all (\<lambda>e. \<not> is_fsck e) (info_events c msg)"
  by (simp add: info_events_def)

lemma quiet_plymouth [simp]: "list_all (\<lambda>e. \<not> is_fsck e) (plymouth_events M sp cmd h)"
  by (simp add: plymouth_events_def)

lemma visible_plymouth [simp]: "visible (plymouth_events M sp cmd h) = []"
  by (simp add: plymouth_events_def visible_def)

lemma visible_append [simp]: "visible (es @ es') = visible es @ visible es'"
  by (simp add: visible_def)

lemma visible_Cons [simp]:
  "visible (e # es) = (if is_plymouth e then visible es else e # visible es)"
  by (simp add: visible_def)

lemma visible_Nil [simp]: "visible [] = []"
  by (simp add: visible_def)

lemma is_Return_after [simp]: "is_Return (after es r) = is_Return r"
  by (cases r) simp_all

lemma is_Hang_after [simp]: "is_Hang (after es r) = is_Hang r"
  by (cases r) simp_all

lemmas observe = events_after fsck_outcome_append after_fsck_append

lemma quiet_Nil [simp]: "quiet []"
  by (simp add: quiet_def)

lemma quiet_Cons [simp]: "quiet (e # es) = (\<not> is_fsck e \<and> quiet es)"
  by (simp add: quiet_def)

lemma quiet_append [simp]: "quiet (es @ es') = (quiet es \<and> quiet es')"
  by (simp add: quiet_def)

lemma quiet_outcome: "quiet es \<Longrightarrow> fsck_outcome (es @ rest) = fsck_outcome rest"
  by (simp add: quiet_def fsck_outcome_append)

lemma quiet_after_fsck: "quiet es \<Longrightarrow> after_fsck (es @ rest) = after_fsck rest"
  by (simp add: quiet_def after_fsck_append)

lemma quiet_outcome_None: "quiet es \<Longrightarrow> fsck_outcome es = None"
  using quiet_outcome [of es "[]"] by simp

lemma fsck_post_quiet: "quiet (events A) \<Longrightarrow> fsck_post Q A"
  by (simp add: fsck_post_def quiet_outcome_None)

lemma fsck_post_after: "quiet es \<Longrightarrow> fsck_post Q A \<Longrightarrow> fsck_post Q (after es A)"
  by (simp add: fsck_post_def events_after quiet_outcome quiet_after_fsck)

lemma fsck_post_pbind:
  assumes "quiet_prog m"
    and "\<And>a es. m h = Return a es \<Longrightarrow> fsck_post Q (f a (h @ es))"
  shows "fsck_post Q (pbind m f h)"
proof (cases "m h")
  case (Return a es)
  have "quiet es" using assms(1) Return unfolding quiet_prog_def by (metis events.simps(1))
  then show ?thesis
    using assms(2) [OF Return] Return by (simp add: pbind_def fsck_post_after)
next
  case (Hang es)
  have "quiet es" using assms(1) Hang unfolding quiet_prog_def by (metis events.simps(2))
  then show ?thesis using Hang by (simp add: pbind_def fsck_post_quiet)
next
  case (Raise e es)
  have "quiet es" using assms(1) Raise unfolding quiet_prog_def by (metis events.simps(3))
  then show ?thesis using Raise by (simp add: pbind_def fsck_post_quiet)
next
  case (SysExit n es)
  have "quiet es" using assms(1) SysExit unfolding quiet_prog_def by (metis events.simps(4))
  then show ?thesis using SysExit by (simp add: pbind_def fsck_post_quiet)
qed

lemma fsck_post_ret: "fsck_post Q (ret a h)"
  by (simp add: fsck_post_quiet ret_def)

lemma fsck_post_call:
  assumes "take 1 cmd = [''/sbin/fsck'']"
    and "\<And>r. call_result M h cmd = Exited r \<Longrightarrow>
           Q (Exited r) (events (K r (h @ [Exec red cmd (Exited r)])))
             (is_Return (K r (h @ [Exec red cmd (Exited r)])))
             (is_Hang (K r (h @ [Exec red cmd (Exited r)])))"
    and "Q NeverReturns [] False True"
    and "Q NotStarted [] False False"
  shows "fsck_post Q (pbind (call M red cmd) K h)"
  using assms
  by (simp add: fsck_post_def pbind_call events_after split: call_outcome.splits)

lemma quiet_prog_CONFIG_get [simp]: "quiet_prog (CONFIG_get c k)"
  by (simp add: quiet_prog_def CONFIG_get_eq quiet_def)

lemma quiet_prog_UI_info [simp]: "quiet_prog (UI_info c msg)"
  by (simp add: quiet_prog_def UI_info_eq quiet_def)

lemma quiet_prog_UI_warn [simp]: "quiet_prog (UI_warn msg)"
  by (simp add: quiet_prog_def UI_warn_def pseq_emit emit_def)

lemma quiet_prog_get_fstab_entry [simp]: "quiet_prog (get_fstab_entry_with_mountpoint M c ''/'')"
  by (simp add: quiet_prog_def get_fstab_entry_eq)

lemma quiet_prog_send_cmd [simp]: "quiet_prog (send_cmd M sp cmd)"
  by (simp add: quiet_prog_def send_cmd_def run_quiet_def pbind_call ret_def
      split: call_outcome.splits)

lemma quiet_prog_call:
  "take 1 cmd \<noteq> [''/sbin/fsck''] \<Longrightarrow> quiet_prog (call M red cmd)"
  by (simp add: quiet_prog_def call_def split: call_outcome.splits)

lemma pbind_case_option:
  "pbind (case x of None \<Rightarrow> m | Some y \<Rightarrow> n y) f =
     (case x of None \<Rightarrow> pbind m f | Some y \<Rightarrow> pbind (n y) f)"
  by (cases x) simp_all

lemma pbind_case_prod:
  "pbind (case p of (a, b) \<Rightarrow> m a b) f = (case p of (a, b) \<Rightarrow> pbind (m a b) f)"
  by (cases p) simp

lemma fsck_post_if:
  "(b \<Longrightarrow> fsck_post Q (m h)) \<Longrightarrow> (\<not> b \<Longrightarrow> fsck_post Q (n h)) \<Longrightarrow>
   fsck_post Q ((if b then m else n) h)"
  by simp

lemma fsck_post_case_option:
  "(x = None \<Longrightarrow> fsck_post Q (m h)) \<Longrightarrow> (\<And>y. x = Some y \<Longrightarrow> fsck_post Q (n y h)) \<Longrightarrow>
   fsck_post Q ((case x of None \<Rightarrow> m | Some y \<Rightarrow> n y) h)"
  by (cases x) simp_all

lemma fsck_post_case_prod:
  "(\<And>a b. p = (a, b) \<Longrightarrow> fsck_post Q (m a b h)) \<Longrightarrow>
   fsck_post Q ((case p of (a, b) \<Rightarrow> m a b) h)"
  by (cases p) simp

lemma fsck_post_fsck:
  assumes "\<And>r. call_result M h (''/sbin/fsck'' # args) = Exited r \<Longrightarrow>
           Q (Exited r) (events (K r (h @ [Exec red (''/sbin/fsck'' # args) (Exited r)])))
             (is_Return (K r (h @ [Exec red (''/sbin/fsck'' # args) (Exited r)])))
             (is_Hang (K r (h @ [Exec red (''/sbin/fsck'' # args) (Exited r)])))"
    and "Q NeverReturns [] False True"
    and "Q NotStarted [] False False"
  shows "fsck_post Q (pbind (call M red (''/sbin/fsck'' # args)) K h)"
  by (rule fsck_post_call) (use assms in simp_all)

lemma quiet_prog_mount [simp]: "quiet_prog (call M red (''/bin/mount'' # args))"
  by (rule quiet_prog_call) simp

lemma pbind_ret_fun: "pbind (ret a) f = f a"
  by (rule ext) (simp add: pbind_ret)

lemmas stage_nf = pseq_def pbind_assoc pbind_ret_fun pbind_if pbind_case_option pbind_case_prod
  run_def run_full_def run_quiet_def SPLASH_hide_splash_def SPLASH_update_def
  SPLASH_report_error_def

text \<open>What follows the fsck call of the root check: the policy, then the milestone.\<close>

lemma root_post:
  assumes tail: "\<And>(c1::config) r h'. Q (Exited r)
       (events (pbind (root_fsck_policy M sp r)
          (\<lambda>_. pbind (send_cmd M sp [''update'', ''--status='' @ ''check_root_filesystem''])
             (\<lambda>_. ret c1)) h'))
       (is_Return (pbind (root_fsck_policy M sp r)
          (\<lambda>_. pbind (send_cmd M sp [''update'', ''--status='' @ ''check_root_filesystem''])
             (\<lambda>_. ret c1)) h'))
       (is_Hang (pbind (root_fsck_policy M sp r)
          (\<lambda>_. pbind (send_cmd M sp [''update'', ''--status='' @ ''check_root_filesystem''])
             (\<lambda>_. ret c1)) h'))"
    and never: "Q NeverReturns [] False True"
    and notst: "Q NotStarted [] False False"
  shows "fsck_post Q (check_root_filesystem M sp c h)"
  unfolding check_root_filesystem_def skip_for_lxc_guests_def plymouth_update_milestone_def
    check_root_filesystem_body_def
  apply (simp only: stage_nf)
  apply (rule fsck_post_pbind, simp)
  apply (rule fsck_post_if)
   apply (rule fsck_post_pbind, simp)
   apply (rule fsck_post_if)
    apply (rule fsck_post_pbind, simp)
    apply (rule fsck_post_case_prod)
    apply (rule fsck_post_case_option)
     apply (rule fsck_post_pbind, simp)
     apply (rule fsck_post_pbind, simp)
     apply (rule fsck_post_ret)
    apply (rule fsck_post_pbind, simp)
    apply (rule fsck_post_if)
     apply (rule fsck_post_pbind, simp)
     apply (rule fsck_post_pbind, simp)
     apply (rule fsck_post_pbind, simp)
     apply (rule fsck_post_if)
      apply (rule fsck_post_pbind, simp)
      apply (rule fsck_post_pbind, simp)
      apply (rule fsck_post_fsck)
        apply (rule tail)
       apply (rule never)
      apply (rule notst)
     apply (rule fsck_post_pbind, simp)
     apply (rule fsck_post_fsck)
       apply (rule tail)
      apply (rule never)
     apply (rule notst)
    apply (rule fsck_post_pbind, simp)
    apply (rule fsck_post_pbind, simp)
    apply (rule fsck_post_ret)
   apply (rule fsck_post_pbind, simp)
   apply (rule fsck_post_ret)
  apply (rule fsck_post_ret)
  done

lemma root_tail_zero:
  assumes "running sp \<longrightarrow> plymouth_returns M"
  shows "visible (events (pbind (root_fsck_policy M sp 0)
            (\<lambda>_. pbind (send_cmd M sp cmd) (\<lambda>_. ret c1)) h)) = [] \<and>
         is_Return (pbind (root_fsck_policy M sp 0)
            (\<lambda>_. pbind (send_cmd M sp cmd) (\<lambda>_. ret c1)) h)"
  by (simp add: root_fsck_policy_def prog_nf pbind_send_cmd [OF assms] events_after ret_def)

lemma root_tail_reboot:
  assumes "running sp \<longrightarrow> plymouth_returns M" and "r = 2 \<or> r = 3"
  shows "\<exists>out. visible (events (pbind (root_fsck_policy M sp r)
            (\<lambda>_. pbind (send_cmd M sp cmd) (\<lambda>_. ret c1)) h)) =
           forced_reboot_path @ [Exec NoStdout [''/sbin/reboot'', ''-f''] out] \<and>
         (is_Return (pbind (root_fsck_policy M sp r)
            (\<lambda>_. pbind (send_cmd M sp cmd) (\<lambda>_. ret c1)) h) \<longleftrightarrow> (\<exists>n. out = Exited n)) \<and>
         (out = NeverReturns \<longrightarrow>
            is_Hang (pbind (root_fsck_policy M sp r)
              (\<lambda>_. pbind (send_cmd M sp cmd) (\<lambda>_. ret c1)) h))"
  using assms(2)
  by (auto simp: root_fsck_policy_def prog_nf pbind_send_cmd [OF assms(1)] events_after ret_def
      forced_reboot_path_def split: call_outcome.splits)

lemma root_tail_other:
  assumes "running sp \<longrightarrow> plymouth_returns M" and "r \<noteq> 0" "r \<noteq> 2" "r \<noteq> 3"
  shows "\<exists>out. visible (events (pbind (root_fsck_policy M sp r)
            (\<lambda>_. pbind (send_cmd M sp cmd) (\<lambda>_. ret c1)) h)) =
           [Log ''Filesystem could not be repaired'', Error ''Filesystem could not be repaired'',
            Exec Full [''/sbin/sulogin''] out] \<and>
         (is_Return (pbind (root_fsck_policy M sp r)
            (\<lambda>_. pbind (send_cmd M sp cmd) (\<lambda>_. ret c1)) h) \<longleftrightarrow> (\<exists>n. out = Exited n))"
  using assms(2-4)
  by (auto simp: root_fsck_policy_def prog_nf pbind_send_cmd [OF assms(1)] events_after ret_def
      split: call_outcome.splits)

lemma without_unlink_simps [simp]:
  "without_unlink [] = []"
  "without_unlink (e # es) =
     (if e = Os (Unlink ''/forcefsck'') None then without_unlink es else e # without_unlink es)"
  "without_unlink (es @ es') = without_unlink es @ without_unlink es'"
  by (simp_all add: without_unlink_def)

lemma quiet_prog_path_exists_now [simp]: "quiet_prog (path_exists_now M p)"
  by (simp add: quiet_prog_def path_exists_now_def)

lemma fs_tail_zero:
  assumes "running sp \<longrightarrow> plymouth_returns M"
  shows "visible (events (pbind (filesystems_fsck_policy M sp 0)
            (\<lambda>_. pbind (send_cmd M sp cmd) (\<lambda>_. ret c1)) h)) = [] \<and>
         is_Return (pbind (filesystems_fsck_policy M sp 0)
            (\<lambda>_. pbind (send_cmd M sp cmd) (\<lambda>_. ret c1)) h)"
  by (simp add: filesystems_fsck_policy_def prog_nf pbind_send_cmd [OF assms] events_after ret_def)

lemma fs_tail_warn:
  assumes "running sp \<longrightarrow> plymouth_returns M" and "r = 2 \<or> r = 3"
  shows "visible (events (pbind (filesystems_fsck_policy M sp r)
            (\<lambda>_. pbind (send_cmd M sp cmd) (\<lambda>_. ret c1)) h)) =
           [Log ''Filesystem errors corrected'', Warn ''Filesystem errors corrected''] \<and>
         is_Return (pbind (filesystems_fsck_policy M sp r)
            (\<lambda>_. pbind (send_cmd M sp cmd) (\<lambda>_. ret c1)) h)"
  using assms(2)
  by (auto simp: filesystems_fsck_policy_def prog_nf pbind_send_cmd [OF assms(1)] events_after ret_def)

lemma fs_tail_other:
  assumes "running sp \<longrightarrow> plymouth_returns M" and "r \<noteq> 0" "r \<noteq> 2" "r \<noteq> 3"
  shows "\<exists>out. visible (events (pbind (filesystems_fsck_policy M sp r)
            (\<lambda>_. pbind (send_cmd M sp cmd) (\<lambda>_. ret c1)) h)) =
           [Log ''Fsck could not correct all errors, manual repair needed'',
            Error ''Fsck could not correct all errors, manual repair needed'',
            Exec Full [''/sbin/sulogin''] out] \<and>
         (is_Return (pbind (filesystems_fsck_policy M sp r)
            (\<lambda>_. pbind (send_cmd M sp cmd) (\<lambda>_. ret c1)) h) \<longleftrightarrow> (\<exists>n. out = Exited n))"
proof -
  have "\<not> (2 \<le> r \<and> r \<le> 3)" using assms(3,4) by arith
  then show ?thesis
    using assms(2)
    by (auto simp: filesystems_fsck_policy_def prog_nf pbind_send_cmd [OF assms(1)] events_after
        ret_def split: call_outcome.splits)
qed

text \<open>The forced branch removes the sentinel before the policy is applied.\<close>

lemma forced_tail:
  assumes "unlink_succeeds M"
  shows "\<exists>pre. without_unlink pre = [] \<and> visible pre = pre \<and>
     pbind (path_exists_now M ''/forcefsck'')
       (\<lambda>ex. if ex then pbind (os_call M (Unlink ''/forcefsck'')) (\<lambda>_. T) else T) h =
     after pre (T (h @ pre))"
proof (cases "exists_path M h ''/forcefsck''")
  case True
  have "oscall_error M h (Unlink ''/forcefsck'') = None"
    using assms by (simp add: unlink_succeeds_def)
  with True show ?thesis
    by (intro exI [of _ "[Os (Unlink ''/forcefsck'') None]"])
      (simp add: pbind_path_exists_now pbind_os_call)
next
  case False
  then show ?thesis
    by (intro exI [of _ "[]"]) (simp add: pbind_path_exists_now after_Nil)
qed

lemma fs_post:
  assumes tail: "\<And>r h'. Q (Exited r)
       (events (pbind (filesystems_fsck_policy M sp r)
          (\<lambda>_. pbind (send_cmd M sp [''update'', ''--status='' @ ''check_filesystems''])
             (\<lambda>_. ret c)) h'))
       (is_Return (pbind (filesystems_fsck_policy M sp r)
          (\<lambda>_. pbind (send_cmd M sp [''update'', ''--status='' @ ''check_filesystems''])
             (\<lambda>_. ret c)) h'))
       (is_Hang (pbind (filesystems_fsck_policy M sp r)
          (\<lambda>_. pbind (send_cmd M sp [''update'', ''--status='' @ ''check_filesystems''])
             (\<lambda>_. ret c)) h'))"
    and forced: "\<And>r h'. Q (Exited r)
       (events (pbind (path_exists_now M ''/forcefsck'')
          (\<lambda>ex. if ex
                then pbind (os_call M (Unlink ''/forcefsck''))
                  (\<lambda>_. pbind (filesystems_fsck_policy M sp r)
                     (\<lambda>_. pbind (send_cmd M sp [''update'', ''--status='' @ ''check_filesystems''])
                        (\<lambda>_. ret c)))
                else pbind (filesystems_fsck_policy M sp r)
                  (\<lambda>_. pbind (send_cmd M sp [''update'', ''--status='' @ ''check_filesystems''])
                     (\<lambda>_. ret c))) h'))
       (is_Return (pbind (path_exists_now M ''/forcefsck'')
          (\<lambda>ex. if ex
                then pbind (os_call M (Unlink ''/forcefsck''))
                  (\<lambda>_. pbind (filesystems_fsck_policy M sp r)
                     (\<lambda>_. pbind (send_cmd M sp [''update'', ''--status='' @ ''check_filesystems''])
                        (\<lambda>_. ret c)))
                else pbind (filesystems_fsck_policy M sp r)
                  (\<lambda>_. pbind (send_cmd M sp [''update'', ''--status='' @ ''check_filesystems''])
                     (\<lambda>_. ret c))) h'))
       (is_Hang (pbind (path_exists_now M ''/forcefsck'')
          (\<lambda>ex. if ex
                then pbind (os_call M (Unlink ''/forcefsck''))
                  (\<lambda>_. pbind (filesystems_fsck_policy M sp r)
                     (\<lambda>_. pbind (send_cmd M sp [''update'', ''--status='' @ ''check_filesystems''])
                        (\<lambda>_. ret c)))
                else pbind (filesystems_fsck_policy M sp r)
                  (\<lambda>_. pbind (send_cmd M sp [''update'', ''--status='' @ ''check_filesystems''])
                     (\<lambda>_. ret c))) h'))"
    and never: "Q NeverReturns [] False True"
    and notst: "Q NotStarted [] False False"
  shows "fsck_post Q (check_filesystems M sp c h)"
  unfolding check_filesystems_def skip_for_lxc_guests_def plymouth_update_milestone_def
    check_filesystems_body_def
  apply (simp only: stage_nf)
  apply (rule fsck_post_pbind, simp)
  apply (rule fsck_post_if)
   apply (rule fsck_post_pbind, simp)
   apply (rule fsck_post_if)
    apply (rule fsck_post_pbind, simp)
    apply (rule fsck_post_pbind, simp)
    apply (rule fsck_post_if)
     apply (rule fsck_post_pbind, simp)
     apply (rule fsck_post_pbind, simp)
     apply (rule fsck_post_fsck)
       apply (rule forced)
      apply (rule never)
     apply (rule notst)
    apply (rule fsck_post_fsck)
      apply (rule tail)
     apply (rule never)
    apply (rule notst)
   apply (rule fsck_post_pbind, simp)
   apply (rule fsck_post_ret)
  apply (rule fsck_post_ret)
  done

lemmas stage_eval = check_root_filesystem_def skip_for_lxc_guests_def
  plymouth_update_milestone_def check_root_filesystem_body_def root_fsck_policy_def
  check_filesystems_def check_filesystems_body_def filesystems_fsck_policy_def
  prog_nf send_cmd_def option_value_def missing_key_events_def info_events_def
  root_entry_def fstab_table_def plain_config_def no_splash_def fsck_machine_def
  default_options_def keep_line_def startswith_def split_ws_def isspace_def
  forced_reboot_path_def ret_def

lemmas misbehave = reboot_exits_machine_def splash_on_def splash_hangs_machine_def
  forced_config_def unlink_raises_machine_def

section \<open>Claims about the filesystem checks\<close>

text \<open>
  C3, as stated, fails where it says that the path of the codes 2 and 3 never returns,
  and where it says that code 0 continues, for every machine. Nothing follows the call
  of \<^verbatim>\<open>reboot -f\<close> in the procedure, so on a machine where that command fails and
  exits, the procedure returns after the forced-reboot path. And while the splash runs,
  a plymouth client that never returns keeps the procedure from returning after an
  fsck that exited with 0.
\<close>

theorem root_check_exit_codes_counterexample:
  "fsck_outcome (events (check_root_filesystem reboot_exits_machine no_splash plain_config [])) =
     Some (Exited 2) \<and>
   visible (after_fsck
     (events (check_root_filesystem reboot_exits_machine no_splash plain_config []))) =
     forced_reboot_path @ [Exec NoStdout [''/sbin/reboot'', ''-f''] (Exited 1)] \<and>
   is_Return (check_root_filesystem reboot_exits_machine no_splash plain_config []) \<and>
   fsck_outcome (events (check_root_filesystem (splash_hangs_machine 0) splash_on plain_config [])) =
     Some (Exited 0) \<and>
   is_Hang (check_root_filesystem (splash_hangs_machine 0) splash_on plain_config [])"
  by (simp add: stage_eval misbehave)

text \<open>
  C3, amended. Take any run of \<^verbatim>\<open>check_root_filesystem\<close> in which fsck is called and
  exits with status \<open>r\<close>, on a machine where the plymouth client exits whenever it is
  called while the splash runs. Apart from splash traffic, what follows the fsck call
  is:
  for \<open>r = 0\<close> nothing, and the procedure returns (no rescue shell, no reboot);
  for \<open>r = 2\<close> or \<open>r = 3\<close> the forced-reboot path, once: the warning, four bells one
  second apart, the announcement, ten seconds of waiting, the last warning and one call
  of \<^verbatim>\<open>reboot -f\<close>, which is the last action: the procedure returns if and only if that
  call itself exits, and never returns when the call never returns;
  for any other \<open>r\<close> the error message and one call of \<^verbatim>\<open>sulogin\<close>, and the procedure
  returns if and only if that call exits.
\<close>

theorem root_check_exit_codes:
  assumes ply: "running sp \<longrightarrow> plymouth_returns M"
    and out: "fsck_outcome (events (check_root_filesystem M sp c h)) = Some (Exited r)"
  shows "(r = 0 \<longrightarrow>
            visible (after_fsck (events (check_root_filesystem M sp c h))) = [] \<and>
            is_Return (check_root_filesystem M sp c h)) \<and>
         (r = 2 \<or> r = 3 \<longrightarrow>
            (\<exists>reboot. visible (after_fsck (events (check_root_filesystem M sp c h))) =
                 forced_reboot_path @ [Exec NoStdout [''/sbin/reboot'', ''-f''] reboot] \<and>
               (is_Return (check_root_filesystem M sp c h) \<longleftrightarrow> (\<exists>n. reboot = Exited n)) \<and>
               (reboot = NeverReturns \<longrightarrow> is_Hang (check_root_filesystem M sp c h)))) \<and>
         (r \<noteq> 0 \<and> r \<noteq> 2 \<and> r \<noteq> 3 \<longrightarrow>
            (\<exists>shell. visible (after_fsck (events (check_root_filesystem M sp c h))) =
                 [Log ''Filesystem could not be repaired'',
                  Error ''Filesystem could not be repaired'',
                  Exec Full [''/sbin/sulogin''] shell] \<and>
               (is_Return (check_root_filesystem M sp c h) \<longleftrightarrow> (\<exists>n. shell = Exited n))))"
proof -
  define Q where "Q = (\<lambda>out post returns hangs. out = Exited r \<longrightarrow>
      (r = 0 \<longrightarrow> visible post = [] \<and> returns) \<and>
      (r = 2 \<or> r = 3 \<longrightarrow>
         (\<exists>reboot. visible post =
              forced_reboot_path @ [Exec NoStdout [''/sbin/reboot'', ''-f''] reboot] \<and>
            (returns \<longleftrightarrow> (\<exists>n. reboot = Exited n)) \<and>
            (reboot = NeverReturns \<longrightarrow> hangs))) \<and>
      (r \<noteq> 0 \<and> r \<noteq> 2 \<and> r \<noteq> 3 \<longrightarrow>
         (\<exists>shell. visible post =
              [Log ''Filesystem could not be repaired'',
               Error ''Filesystem could not be repaired'',
               Exec Full [''/sbin/sulogin''] shell] \<and>
            (returns \<longleftrightarrow> (\<exists>n. shell = Exited n)))))"
  have "fsck_post Q (check_root_filesystem M sp c h)"
  proof (rule root_post)
    fix c1 :: config and r' h'
    let ?T = "pbind (root_fsck_policy M sp r')
          (\<lambda>_. pbind (send_cmd M sp [''update'', ''--status='' @ ''check_root_filesystem''])
             (\<lambda>_. ret c1)) h'"
    show "Q (Exited r') (events ?T) (is_Return ?T) (is_Hang ?T)"
      unfolding Q_def
    proof (intro impI conjI)
      assume "Exited r' = Exited r" "r = 0"
      then have "r' = 0" by simp
      then show "visible (events ?T) = []" "is_Return ?T"
        by (simp_all add: root_tail_zero [OF ply])
    next
      assume "Exited r' = Exited r" "r = 2 \<or> r = 3"
      then have "r' = r" "r' = 2 \<or> r' = 3" by simp_all
      then show "\<exists>reboot. visible (events ?T) =
            forced_reboot_path @ [Exec NoStdout [''/sbin/reboot'', ''-f''] reboot] \<and>
          (is_Return ?T \<longleftrightarrow> (\<exists>n. reboot = Exited n)) \<and>
          (reboot = NeverReturns \<longrightarrow> is_Hang ?T)"
        by (simp add: root_tail_reboot [OF ply])
    next
      assume "Exited r' = Exited r" "r \<noteq> 0 \<and> r \<noteq> 2 \<and> r \<noteq> 3"
      then have "r' \<noteq> 0" "r' \<noteq> 2" "r' \<noteq> 3" by simp_all
      then show "\<exists>shell. visible (events ?T) =
            [Log ''Filesystem could not be repaired'',
             Error ''Filesystem could not be repaired'',
             Exec Full [''/sbin/sulogin''] shell] \<and>
          (is_Return ?T \<longleftrightarrow> (\<exists>n. shell = Exited n))"
        by (simp add: root_tail_other [OF ply])
    qed
  qed (simp_all add: Q_def)
  with out show ?thesis
    unfolding fsck_post_def Q_def by simp
qed

theorem root_check_exit_codes_witness:
  "fsck_outcome (events (check_root_filesystem (fsck_machine 2) no_splash plain_config [])) =
     Some (Exited 2) \<and>
   visible (after_fsck (events (check_root_filesystem (fsck_machine 2) no_splash plain_config []))) =
     forced_reboot_path @ [Exec NoStdout [''/sbin/reboot'', ''-f''] NeverReturns] \<and>
   is_Hang (check_root_filesystem (fsck_machine 2) no_splash plain_config [])"
proof -
  have ply: "running no_splash \<longrightarrow> plymouth_returns (fsck_machine 2)"
    by (simp add: no_splash_def)
  have run: "check_root_filesystem (fsck_machine 2) no_splash plain_config [] =
      Hang ([Log ''Remounting root filesystem read-only'',
             Info ''Remounting root filesystem read-only'',
             Exec Quiet [''/bin/mount'', ''-n'', ''-o'', ''remount,ro'', ''/''] (Exited 0),
             Log ''Checking root filesystem'', Info ''Checking root filesystem'',
             Exec Full [''/sbin/fsck'', ''-C'', ''-T'', ''-a'', ''/''] (Exited 2)] @
            forced_reboot_path @ [Exec NoStdout [''/sbin/reboot'', ''-f''] NeverReturns])"
    by (simp add: stage_eval)
  have out: "fsck_outcome
      (events (check_root_filesystem (fsck_machine 2) no_splash plain_config [])) =
      Some (Exited 2)"
    by (simp add: run)
  show ?thesis
    using root_check_exit_codes [OF ply out] out
    by (simp add: run forced_reboot_path_def)
qed

text \<open>
  C4, as stated, fails for some machines. In forced mode the sentinel file is removed
  between the fsck call and the exit-code policy, and the removal is not guarded: when
  it raises, an fsck that exited with 3 is followed by no warning, and the procedure
  ends with the exception. And while the splash runs, a plymouth client that never
  returns keeps the procedure from returning after the warning.
\<close>

theorem filesystems_check_exit_codes_counterexample:
  "check_filesystems unlink_raises_machine no_splash forced_config [] =
     Raise OSError
       [Log ''Checking all filesystems'', Info ''Checking all filesystems'',
        Log ''A full fsck has been forced'', Info ''A full fsck has been forced'',
        Exec Full [''/sbin/fsck'', ''-C'', ''-R'', ''-A'', ''-a'', ''-f''] (Exited 3),
        Os (Unlink ''/forcefsck'') (Some OSError)] \<and>
   fsck_outcome (events (check_filesystems (splash_hangs_machine 3) splash_on plain_config [])) =
     Some (Exited 3) \<and>
   is_Hang (check_filesystems (splash_hangs_machine 3) splash_on plain_config [])"
  by (simp add: stage_eval misbehave UI_warn_def emit_def)

text \<open>
  C4, amended. Take any run of \<^verbatim>\<open>check_filesystems\<close> in which fsck is called and exits
  with status \<open>r\<close>, on a machine where the plymouth client exits whenever it is called
  while the splash runs and where the removal of the sentinel file (forced mode) does
  not raise. Apart from splash traffic and that removal, what follows the fsck call is:
  for \<open>r = 0\<close> nothing; for \<open>r = 2\<close> or \<open>r = 3\<close> the warning and nothing else, and the
  procedure returns: no reboot, no rescue shell; for any other \<open>r\<close> the error message
  and one call of \<^verbatim>\<open>sulogin\<close>. The two policies differ on the codes 2 and 3: the policy
  of the root check calls \<^verbatim>\<open>reboot -f\<close>, the policy of this check only warns.
\<close>

theorem filesystems_check_exit_codes:
  assumes ply: "running sp \<longrightarrow> plymouth_returns M"
    and unl: "unlink_succeeds M"
    and out: "fsck_outcome (events (check_filesystems M sp c h)) = Some (Exited r)"
  shows "(r = 0 \<longrightarrow>
            without_unlink (visible (after_fsck (events (check_filesystems M sp c h)))) = [] \<and>
            is_Return (check_filesystems M sp c h)) \<and>
         (r = 2 \<or> r = 3 \<longrightarrow>
            without_unlink (visible (after_fsck (events (check_filesystems M sp c h)))) =
              [Log ''Filesystem errors corrected'', Warn ''Filesystem errors corrected''] \<and>
            is_Return (check_filesystems M sp c h) \<and>
            (\<forall>h'. visible (events (filesystems_fsck_policy M sp r h')) =
                    [Log ''Filesystem errors corrected'', Warn ''Filesystem errors corrected''] \<and>
                  (\<exists>reboot. visible (events (root_fsck_policy M sp r h')) =
                     forced_reboot_path @ [Exec NoStdout [''/sbin/reboot'', ''-f''] reboot]))) \<and>
         (r \<noteq> 0 \<and> r \<noteq> 2 \<and> r \<noteq> 3 \<longrightarrow>
            (\<exists>shell. without_unlink (visible (after_fsck (events (check_filesystems M sp c h)))) =
                 [Log ''Fsck could not correct all errors, manual repair needed'',
                  Error ''Fsck could not correct all errors, manual repair needed'',
                  Exec Full [''/sbin/sulogin''] shell] \<and>
               (is_Return (check_filesystems M sp c h) \<longleftrightarrow> (\<exists>n. shell = Exited n))))"
proof -
  define V where "V = (\<lambda>post returns.
      (r = 0 \<longrightarrow> without_unlink (visible post) = [] \<and> returns) \<and>
      (r = 2 \<or> r = 3 \<longrightarrow>
         without_unlink (visible post) =
           [Log ''Filesystem errors corrected'', Warn ''Filesystem errors corrected''] \<and>
         returns) \<and>
      (r \<noteq> 0 \<and> r \<noteq> 2 \<and> r \<noteq> 3 \<longrightarrow>
         (\<exists>shell. without_unlink (visible post) =
              [Log ''Fsck could not correct all errors, manual repair needed'',
               Error ''Fsck could not correct all errors, manual repair needed'',
               Exec Full [''/sbin/sulogin''] shell] \<and>
            (returns \<longleftrightarrow> (\<exists>n. shell = Exited n)))))"
  define Q where "Q = (\<lambda>out post returns (hangs::bool). out = Exited r \<longrightarrow> V post returns)"
  let ?T = "\<lambda>r'. pbind (filesystems_fsck_policy M sp r')
          (\<lambda>_. pbind (send_cmd M sp [''update'', ''--status='' @ ''check_filesystems''])
             (\<lambda>_. ret c))"
  have tail: "V (events (?T r h')) (is_Return (?T r h'))" for h'
    unfolding V_def
  proof (intro impI conjI)
    assume "r = 0"
    then show "without_unlink (visible (events (?T r h'))) = []" "is_Return (?T r h')"
      by (simp_all add: fs_tail_zero [OF ply])
  next
    assume "r = 2 \<or> r = 3"
    then show "without_unlink (visible (events (?T r h'))) =
        [Log ''Filesystem errors corrected'', Warn ''Filesystem errors corrected'']"
      "is_Return (?T r h')"
      by (simp_all add: fs_tail_warn [OF ply])
  next
    assume "r \<noteq> 0 \<and> r \<noteq> 2 \<and> r \<noteq> 3"
    then obtain shell where "visible (events (?T r h')) =
        [Log ''Fsck could not correct all errors, manual repair needed'',
         Error ''Fsck could not correct all errors, manual repair needed'',
         Exec Full [''/sbin/sulogin''] shell]"
      "is_Return (?T r h') \<longleftrightarrow> (\<exists>n. shell = Exited n)"
      using fs_tail_other [OF ply, of r "[''update'', ''--status='' @ ''check_filesystems'']" c h']
      by auto
    then show "\<exists>shell. without_unlink (visible (events (?T r h'))) =
        [Log ''Fsck could not correct all errors, manual repair needed'',
         Error ''Fsck could not correct all errors, manual repair needed'',
         Exec Full [''/sbin/sulogin''] shell] \<and>
        (is_Return (?T r h') \<longleftrightarrow> (\<exists>n. shell = Exited n))"
      by simp
  qed
  have "fsck_post Q (check_filesystems M sp c h)"
  proof (rule fs_post)
    fix r' h'
    show "Q (Exited r') (events (?T r' h')) (is_Return (?T r' h')) (is_Hang (?T r' h'))"
      unfolding Q_def using tail by simp
  next
    fix r' h'
    let ?F = "pbind (path_exists_now M ''/forcefsck'')
          (\<lambda>ex. if ex then pbind (os_call M (Unlink ''/forcefsck'')) (\<lambda>_. ?T r') else ?T r') h'"
    obtain pre where pre: "without_unlink pre = []" "visible pre = pre"
      "?F = after pre (?T r' (h' @ pre))"
      using forced_tail [OF unl, of "?T r'" h'] by blast
    have "V (events ?F) (is_Return ?F)" if "r' = r"
    proof -
      have "without_unlink (visible (events ?F)) =
          without_unlink (visible (events (?T r (h' @ pre))))"
        using pre that by (simp add: events_after)
      moreover have "is_Return ?F = is_Return (?T r (h' @ pre))"
        using pre that by simp
      ultimately show ?thesis
        using tail [of "h' @ pre"] unfolding V_def by simp
    qed
    then show "Q (Exited r') (events ?F) (is_Return ?F) (is_Hang ?F)"
      unfolding Q_def by simp
  qed (simp_all add: Q_def)
  with out have main: "V (after_fsck (events (check_filesystems M sp c h)))
      (is_Return (check_filesystems M sp c h))"
    unfolding fsck_post_def Q_def by simp
  have differ: "visible (events (filesystems_fsck_policy M sp r h')) =
        [Log ''Filesystem errors corrected'', Warn ''Filesystem errors corrected''] \<and>
      (\<exists>reboot. visible (events (root_fsck_policy M sp r h')) =
         forced_reboot_path @ [Exec NoStdout [''/sbin/reboot'', ''-f''] reboot])"
    if "r = 2 \<or> r = 3" for h'
    using that
    by (auto simp: filesystems_fsck_policy_def root_fsck_policy_def prog_nf
        pbind_send_cmd [OF ply] events_after ret_def forced_reboot_path_def emit_def
        UI_warn_def split: call_outcome.splits)
  show ?thesis
    using main differ unfolding V_def by simp
qed

theorem filesystems_check_exit_codes_witness:
  "fsck_outcome (events (check_filesystems (fsck_machine 3) no_splash plain_config [])) =
     Some (Exited 3) \<and>
   without_unlink (visible (after_fsck
     (events (check_filesystems (fsck_machine 3) no_splash plain_config [])))) =
     [Log ''Filesystem errors corrected'', Warn ''Filesystem errors corrected''] \<and>
   is_Return (check_filesystems (fsck_machine 3) no_splash plain_config [])"
proof -
  have ply: "running no_splash \<longrightarrow> plymouth_returns (fsck_machine 3)"
    by (simp add: no_splash_def)
  have unl: "unlink_succeeds (fsck_machine 3)"
    by (simp add: unlink_succeeds_def fsck_machine_def)
  have run: "check_filesystems (fsck_machine 3) no_splash plain_config [] =
      Return plain_config
        [Log ''Checking all filesystems'', Info ''Checking all filesystems'',
         Exec Full [''/sbin/fsck'', ''-C'', ''-T'', ''-R'', ''-A'', ''-a''] (Exited 3),
         Log ''Filesystem errors corrected'', Warn ''Filesystem errors corrected'']"
    by (simp add: stage_eval UI_warn_def emit_def)
  have out: "fsck_outcome
      (events (check_filesystems (fsck_machine 3) no_splash plain_config [])) = Some (Exited 3)"
    by (simp add: run)
  show ?thesis
    using filesystems_check_exit_codes [OF ply unl out] out
    by (simp add: run)
qed

section \<open>Facts about the shutdown\<close>

lemma attempt_outcomes_simps [simp]:
  "attempt_outcomes [] = []"
  "attempt_outcomes (e # es) =
     (if is_remount_attempt e
      then (case outcome_of e of Some out \<Rightarrow> out # attempt_outcomes es
            | None \<Rightarrow> attempt_outcomes es)
      else attempt_outcomes es)"
  "attempt_outcomes (es @ es') = attempt_outcomes es @ attempt_outcomes es'"
  by (simp_all add: attempt_outcomes_def List.map_filter_def split: option.splits)

lemma kill_signals_simps [simp]:
  "kill_signals [] = 0"
  "kill_signals (e # es) = (if is_killall e then Suc (kill_signals es) else kill_signals es)"
  "kill_signals (es @ es') = kill_signals es + kill_signals es'"
  by (simp_all add: kill_signals_def)

lemma balanced_Nil [simp]: "balanced []"
  by (simp add: balanced_def)

lemma balanced_append: "balanced es \<Longrightarrow> balanced es' \<Longrightarrow> balanced (es @ es')"
  by (simp add: balanced_def)

lemma balanced_pbind:
  assumes "balanced (events (m h))"
    and "\<And>a es. m h = Return a es \<Longrightarrow> balanced (events (f a (h @ es)))"
  shows "balanced (events (pbind m f h))"
  using assms by (cases "m h") (simp_all add: events_pbind balanced_append)

lemma balanced_send_cmd: "balanced (events (send_cmd M sp cmd h))"
  by (simp add: send_cmd_def run_quiet_def pbind_call ret_def balanced_def
      split: call_outcome.splits)

lemma find_rootfs_root: "find_rootfs data = Some rootfs \<Longrightarrow> rootfs ! 1 = ''/''"
  by (auto simp: find_rootfs_def find_Some_iff)

lemma balanced_attempt:
  assumes "cmd = [''/bin/mount'', ''-n'', ''-o'', ''remount,ro'', ''/''] \<or>
           cmd = [''/bin/umount'', ''-n'', ''-r'', ''/'']"
  shows "balanced (events (pbind (call M Quiet cmd)
           (\<lambda>status. if status \<noteq> 0
                      then pbind (call M Quiet [''/sbin/killall5'', ''-9'']) (\<lambda>_. ret status)
                      else ret status) h))"
proof -
  have a: "is_remount_attempt (Exec Quiet cmd out)" for out
    using assms by auto
  have k: "\<not> is_killall (Exec Quiet cmd out)" for out
    using assms by auto
  note [simp del] = is_remount_attempt.simps is_killall.simps
  have k2: "is_killall (Exec Quiet [''/sbin/killall5'', ''-9''] out)"
    "\<not> is_remount_attempt (Exec Quiet [''/sbin/killall5'', ''-9''] out)" for out
    by (simp_all add: is_remount_attempt.simps is_killall.simps)
  show ?thesis
    by (simp add: pbind_call events_after ret_def balanced_def a k k2
        split: call_outcome.splits)
qed

lemma balanced_remount_ro: "balanced (events (remount_ro M sp force h))"
  unfolding remount_ro_def pseq_def SPLASH_update_def SPLASH_quit_def run_quiet_def
  apply (rule balanced_pbind)
   apply (simp add: read_file_eq)
  apply (rule balanced_pbind)
   apply (rule balanced_send_cmd)
  apply (rule balanced_pbind)
   apply (rule balanced_send_cmd)
  apply (cases "find_rootfs (case file_content M h ''/proc/mounts'' of None \<Rightarrow> []
          | Some data \<Rightarrow> join [nl] (filter keep_line (split_on nl data)))")
   apply (simp add: read_file_eq raise_def)
  apply (frule find_rootfs_root)
  apply (simp add: read_file_eq del: events.simps)
  apply (intro conjI impI)
   apply (rule balanced_attempt, simp)
  apply (rule balanced_attempt, simp)
  done

lemma balanced_if:
  "(b \<Longrightarrow> balanced (events (m h))) \<Longrightarrow> (\<not> b \<Longrightarrow> balanced (events (n h))) \<Longrightarrow>
   balanced (events ((if b then m else n) h))"
  by simp

lemma balanced_ret: "balanced (events (ret a h))"
  by (simp add: ret_def)

lemma balanced_remount_ladder: "balanced (events (remount_ladder M sp h))"
  unfolding remount_ladder_def pseq_def
  apply (rule balanced_pbind)
   apply (rule balanced_remount_ro)
  apply (rule balanced_if)
   apply (rule balanced_pbind)
    apply (rule balanced_remount_ro)
   apply (rule balanced_if)
    apply (rule balanced_pbind)
     apply (rule balanced_remount_ro)
    apply (rule balanced_ret)
   apply (rule balanced_ret)
  apply (rule balanced_ret)
  done

lemma sort_reverse_sorted: "sorted (rev (map k (sort_reverse k xs)))"
  by (simp add: sort_reverse_def rev_map)

lemma sort_reverse_mset: "mset (sort_reverse k xs) = mset xs"
  by (simp add: sort_reverse_def)

lemma sort_reverse_length: "length (sort_reverse k xs) = length xs"
  by (simp add: sort_reverse_def)

lemma descending_order:
  assumes "sorted (rev ms)" and "i < length ms" and "j < length ms" and "ms ! j < ms ! i"
  shows "i < j"
proof (rule ccontr)
  assume "\<not> i < j"
  then have "j \<le> i" by simp
  let ?n = "length ms"
  have "rev ms ! (?n - 1 - i) \<le> rev ms ! (?n - 1 - j)"
    using assms(1-3) \<open>j \<le> i\<close> by (intro sorted_nth_mono) auto
  then have "ms ! i \<le> ms ! j"
    using assms(2,3) by (simp add: rev_nth)
  with assms(4) show False by simp
qed

lemma nested_in_less: "nested_in child parent \<Longrightarrow> parent < child"
proof -
  assume "nested_in child parent"
  then obtain rest where "child = parent @ (CHR ''/'' # rest)"
    by (auto simp: nested_in_def prefix_def)
  then show ?thesis
    by (simp add: List_Lexorder.list_less_def lexord_append_rightI)
qed

lemma umount_targets_simps [simp]:
  "umount_targets [] = []"
  "umount_targets (e # es) =
     (case umount_target e of Some m \<Rightarrow> m # umount_targets es | None \<Rightarrow> umount_targets es)"
  "umount_targets (es @ es') = umount_targets es @ umount_targets es'"
  by (simp_all add: umount_targets_def List.map_filter_def split: option.splits)

lemma unmount_step_targets:
  "umount_targets (events
     ((if status \<noteq> 0
       then pseq (run_quiet M [''/bin/fuser'', ''-k'', ''-9'', ''-m'', m])
              (pseq (emit (Sleep 1)) (pseq (run_quiet M [''/bin/umount'', ''-f'', ''-r'', m]) (ret ())))
       else ret ()) h)) = []"
  by (simp add: pseq_def run_quiet_def pbind_call pbind_emit events_after ret_def
      split: call_outcome.splits)

lemma unmount_filesystems_targets:
  "prefix (umount_targets (events (unmount_filesystems M devs h))) (map (\<lambda>d. d ! 1) devs) \<and>
   (is_Return (unmount_filesystems M devs h) \<longrightarrow>
      umount_targets (events (unmount_filesystems M devs h)) = map (\<lambda>d. d ! 1) devs)"
proof (induction devs arbitrary: h)
  case Nil
  then show ?case by (simp add: ret_def)
next
  case (Cons dev devs)
  let ?step = "\<lambda>status. (if status \<noteq> 0
       then pseq (run_quiet M [''/bin/fuser'', ''-k'', ''-9'', ''-m'', dev ! 1])
              (pseq (emit (Sleep 1))
                 (pseq (run_quiet M [''/bin/umount'', ''-f'', ''-r'', dev ! 1]) (ret ())))
       else ret ())"
  show ?case
  proof (cases "call_result M h [''/bin/umount'', dev ! 1]")
    case (Exited n)
    let ?h1 = "h @ [Exec Quiet [''/bin/umount'', dev ! 1] (Exited n)]"
    have eq: "unmount_filesystems M (dev # devs) h =
        after [Exec Quiet [''/bin/umount'', dev ! 1] (Exited n)]
          (pseq (?step n) (unmount_filesystems M devs) ?h1)"
      using Exited by (simp add: run_quiet_def pbind_call)
    show ?thesis
    proof (cases "?step n ?h1")
      case (Return a es)
      have none: "umount_targets es = []"
        using unmount_step_targets [of n M "dev ! 1" ?h1] Return by simp
      have "pseq (?step n) (unmount_filesystems M devs) ?h1 =
          after es (unmount_filesystems M devs (?h1 @ es))"
        using Return by (simp add: pseq_def pbind_def)
      with eq have "unmount_filesystems M (dev # devs) h =
          after ([Exec Quiet [''/bin/umount'', dev ! 1] (Exited n)] @ es)
            (unmount_filesystems M devs (?h1 @ es))"
        by (simp add: after_after)
      then show ?thesis
        using Cons.IH [of "?h1 @ es"] none by (simp add: events_after)
    next
      case (Hang es)
      have none: "umount_targets es = []"
        using unmount_step_targets [of n M "dev ! 1" ?h1] Hang by simp
      have "pseq (?step n) (unmount_filesystems M devs) ?h1 = Hang es"
        using Hang by (simp add: pseq_def pbind_def)
      with eq none show ?thesis by simp
    next
      case (Raise e es)
      have none: "umount_targets es = []"
        using unmount_step_targets [of n M "dev ! 1" ?h1] Raise by simp
      have "pseq (?step n) (unmount_filesystems M devs) ?h1 = Raise e es"
        using Raise by (simp add: pseq_def pbind_def)
      with eq none show ?thesis by simp
    next
      case (SysExit k es)
      have none: "umount_targets es = []"
        using unmount_step_targets [of n M "dev ! 1" ?h1] SysExit by simp
      have "pseq (?step n) (unmount_filesystems M devs) ?h1 = SysExit k es"
        using SysExit by (simp add: pseq_def pbind_def)
      with eq none show ?thesis by simp
    qed
  next
    case NeverReturns
    then show ?thesis by (simp add: run_quiet_def pbind_call)
  next
    case NotStarted
    then show ?thesis by (simp add: run_quiet_def pbind_call)
  qed
qed

lemmas ladder_eval = remount_ladder_def remount_ro_def pseq_def SPLASH_update_def
  SPLASH_quit_def send_cmd_def run_quiet_def read_file_eq pbind_def call_def
  find_rootfs_def ladder_machine_def no_splash_def mounts_example_def keep_line_def
  startswith_def split_ws_def isspace_def ret_def

lemmas unmount_eval = stop_system_unmount_def get_fs_entries_def fs_entries_of_def
  sort_reverse_def fs_entry_def vfs_def unmount_filesystems.simps CONFIG_get_def UI_info_def
  plain_config_def default_options_def os_call_def emit_def raise_def

section \<open>Claims about the shutdown\<close>

text \<open>
  C1, as stated, fails: \<^verbatim>\<open>remount_ro\<close> itself sends \<^verbatim>\<open>killall5 -9\<close> after every attempt
  that fails. On a machine where both read-only remounts of root fail and the forced
  unmount succeeds, the ladder sends the kill-all signal twice, not never.
\<close>

theorem remount_ladder_kills_counterexample:
  "attempt_outcomes (events (remount_ladder (ladder_machine 0) no_splash [])) =
     [Exited 32, Exited 32, Exited 0] \<and>
   kill_signals (events (remount_ladder (ladder_machine 0) no_splash [])) = 2"
  by (simp add: ladder_eval)

text \<open>
  C1, amended. In every run of the ladder the number of kill-all signals is the number
  of attempts that ended with a non-zero status: each failed attempt is followed by one
  \<^verbatim>\<open>killall5 -9\<close>. So when the first two attempts fail and the third succeeds, two
  signals are sent, and when all three fail, three.
\<close>

theorem remount_ladder_kills:
  "kill_signals (events (remount_ladder M sp h)) =
     length (filter failed (attempt_outcomes (events (remount_ladder M sp h)))) \<and>
   (\<forall>r1 r2. attempt_outcomes (events (remount_ladder M sp h)) = [Exited r1, Exited r2, Exited 0] \<and>
        r1 \<noteq> 0 \<and> r2 \<noteq> 0 \<longrightarrow>
      kill_signals (events (remount_ladder M sp h)) = 2) \<and>
   (\<forall>r1 r2 r3. attempt_outcomes (events (remount_ladder M sp h)) =
          [Exited r1, Exited r2, Exited r3] \<and> r1 \<noteq> 0 \<and> r2 \<noteq> 0 \<and> r3 \<noteq> 0 \<longrightarrow>
      kill_signals (events (remount_ladder M sp h)) = 3)"
proof -
  have "kill_signals (events (remount_ladder M sp h)) =
      length (filter failed (attempt_outcomes (events (remount_ladder M sp h))))"
    using balanced_remount_ladder [of M sp h] by (simp add: balanced_def)
  then show ?thesis by simp
qed

theorem remount_ladder_kills_witness:
  "attempt_outcomes (events (remount_ladder (ladder_machine 1) no_splash [])) =
     [Exited 32, Exited 32, Exited 1] \<and>
   kill_signals (events (remount_ladder (ladder_machine 1) no_splash [])) = 3"
proof -
  have "attempt_outcomes (events (remount_ladder (ladder_machine 1) no_splash [])) =
      [Exited 32, Exited 32, Exited 1]"
    by (simp add: ladder_eval)
  then show ?thesis
    using remount_ladder_kills [of "ladder_machine 1" no_splash "[]"] by simp
qed

text \<open>
  C2, as stated, fails on its own example: the entries are sorted by mountpoint as
  strings, descending, so with mounts at \<^verbatim>\<open>/data\<close>, \<^verbatim>\<open>/data/nested\<close> and \<^verbatim>\<open>/mnt\<close> the
  shutdown tries \<^verbatim>\<open>/mnt\<close> first, then \<^verbatim>\<open>/data/nested\<close>, then \<^verbatim>\<open>/data\<close>.
\<close>

theorem unmount_order_counterexample:
  "umount_targets (events (stop_system_unmount (ladder_machine 0) no_splash plain_config [])) =
     [''/mnt'', ''/data/nested'', ''/data''] \<and>
   umount_targets (events (stop_system_unmount (ladder_machine 0) no_splash plain_config [])) \<noteq>
     [''/data/nested'', ''/data'', ''/mnt'']"
proof -
  have "umount_targets
      (events (stop_system_unmount (ladder_machine 0) no_splash plain_config [])) =
      [''/mnt'', ''/data/nested'', ''/data'']"
    by (simp add: unmount_eval ladder_eval)
  then show ?thesis by simp
qed

text \<open>
  C2, amended. The entries that \<^verbatim>\<open>get_fs_entries\<close> returns are the non-virtual, non-root
  entries of \<^verbatim>\<open>/proc/mounts\<close>, ordered by mountpoint descending (as strings). Hence a
  mount nested below another one comes before it. The loop attempts the plain
  \<^verbatim>\<open>umount\<close> of the mountpoints in exactly this order: what it has attempted is always
  an initial part of the list, and the whole list when the loop returns.
\<close>

theorem unmount_order:
  "sorted (rev (map (\<lambda>f. f ! 1) (fs_entries_of data))) \<and>
   mset (fs_entries_of data) = mset (filter fs_entry (map split_ws (split_on nl data))) \<and>
   (\<forall>i j. i < length (fs_entries_of data) \<and> j < length (fs_entries_of data) \<and>
      nested_in (fs_entries_of data ! i ! 1) (fs_entries_of data ! j ! 1) \<longrightarrow> i < j) \<and>
   prefix (umount_targets (events (unmount_filesystems M (fs_entries_of data) h)))
     (map (\<lambda>f. f ! 1) (fs_entries_of data)) \<and>
   (is_Return (unmount_filesystems M (fs_entries_of data) h) \<longrightarrow>
      umount_targets (events (unmount_filesystems M (fs_entries_of data) h)) =
        map (\<lambda>f. f ! 1) (fs_entries_of data))"
proof -
  let ?es = "fs_entries_of data"
  let ?ms = "map (\<lambda>f. f ! 1) ?es"
  have sorted: "sorted (rev ?ms)"
    unfolding fs_entries_of_def by (rule sort_reverse_sorted)
  have perm: "mset ?es = mset (filter fs_entry (map split_ws (split_on nl data)))"
    unfolding fs_entries_of_def by (rule sort_reverse_mset)
  have order: "i < j"
    if "i < length ?es" "j < length ?es" "nested_in (?es ! i ! 1) (?es ! j ! 1)" for i j
  proof -
    have "?ms ! j < ?ms ! i"
      using that nested_in_less [of "?es ! i ! 1" "?es ! j ! 1"] by simp
    with sorted that show ?thesis
      by (intro descending_order [of ?ms i j]) simp_all
  qed
  show ?thesis
    using sorted perm order unmount_filesystems_targets [of M ?es h] by blast
qed

theorem unmount_order_witness:
  "map (\<lambda>f. f ! 1) (fs_entries_of mounts_example) = [''/mnt'', ''/data/nested'', ''/data''] \<and>
   nested_in ''/data/nested'' ''/data'' \<and>
   umount_targets (events (unmount_filesystems (ladder_machine 0)
     (fs_entries_of mounts_example) [])) = [''/mnt'', ''/data/nested'', ''/data'']"
proof -
  have ms: "fs_entries_of mounts_example =
      [[''/dev/sdb1'', ''/mnt'', ''ext4'', ''rw'', ''0'', ''0''],
       [''/dev/sda3'', ''/data/nested'', ''ext4'', ''rw'', ''0'', ''0''],
       [''/dev/sda2'', ''/data'', ''ext4'', ''rw'', ''0'', ''0'']]"
    by (simp add: fs_entries_of_def sort_reverse_def fs_entry_def vfs_def mounts_example_def
        split_ws_def isspace_def)
  have nested: "nested_in ''/data/nested'' ''/data''"
    by (simp add: nested_in_def)
  have ret: "is_Return (unmount_filesystems (ladder_machine 0) (fs_entries_of mounts_example) [])"
    by (simp add: ms pseq_def run_quiet_def pbind_call pbind_ret ladder_machine_def ret_def)
  show ?thesis
    using unmount_order [of mounts_example "ladder_machine 0" "[]"] ret nested
    by (simp add: ms)
qed
end
